theory Spec2Isabelle
  imports Complex_Main
begin

section \<open>Shape-from-shading residual model of \<^verbatim>\<open>src/asp/Tools/sfs.cc\<close>\<close>

text \<open>
  The C++ type \<^verbatim>\<open>double\<close> is idealised as \<^typ>\<open>real\<close>: comparisons, sums, products,
  \<^verbatim>\<open>sqrt\<close>, \<^verbatim>\<open>exp\<close> and \<^verbatim>\<open>acos\<close> are the exact operations, so rounding is outside the
  model. A division whose divisor is zero yields an infinity or a NaN in IEEE arithmetic,
  which is no real number; the model makes that an outcome of its own, \<open>NotFinite\<close>,
  instead of relying on the convention \<open>x / 0 = 0\<close> of HOL. The C++ type \<^verbatim>\<open>int\<close> is
  idealised as \<^typ>\<open>int\<close>: grid indices stay far away from the 32-bit limits.
\<close>

subsection \<open>Outcomes of a call\<close>

datatype 'a outcome =
    Returns 'a          \<comment> \<open>the call returns normally\<close>
  | Exits               \<comment> \<open>\<^verbatim>\<open>exit(1)\<close>: the process terminates\<close>
  | PointToPixelErr     \<comment> \<open>the camera exception \<^verbatim>\<open>camera::PointToPixelErr\<close> unwinds the call\<close>
  | NotFinite           \<comment> \<open>a division by zero: the value is not a real number\<close>

definition fdiv :: "real \<Rightarrow> real \<Rightarrow> real option" where
  "fdiv a b = (if b = 0 then None else Some (a / b))"

subsection \<open>Vectors\<close>

type_synonym Vector2 = "real \<times> real"
type_synonym Vector3 = "real \<times> real \<times> real"

fun dot_prod :: "Vector3 \<Rightarrow> Vector3 \<Rightarrow> real" where
  "dot_prod (a0, a1, a2) (b0, b1, b2) = a0 * b0 + a1 * b1 + a2 * b2"

fun cross_prod :: "Vector3 \<Rightarrow> Vector3 \<Rightarrow> Vector3" where
  "cross_prod (a0, a1, a2) (b0, b1, b2) =
     (a1 * b2 - a2 * b1, a2 * b0 - a0 * b2, a0 * b1 - a1 * b0)"

fun vsub :: "Vector3 \<Rightarrow> Vector3 \<Rightarrow> Vector3" where
  "vsub (a0, a1, a2) (b0, b1, b2) = (a0 - b0, a1 - b1, a2 - b2)"

fun vneg :: "Vector3 \<Rightarrow> Vector3" where
  "vneg (a0, a1, a2) = (- a0, - a1, - a2)"

definition norm_2 :: "Vector3 \<Rightarrow> real" where
  "norm_2 v = sqrt (dot_prod v v)"

text \<open>\<^verbatim>\<open>normalize(v)\<close> is \<^verbatim>\<open>v / norm_2(v)\<close>: three divisions by the same number.\<close>

fun normalize :: "Vector3 \<Rightarrow> Vector3 option" where
  "normalize (a0, a1, a2) =
     (case fdiv a0 (norm_2 (a0, a1, a2)) of
        None \<Rightarrow> None
      | Some n0 \<Rightarrow>
          (case fdiv a1 (norm_2 (a0, a1, a2)) of
             None \<Rightarrow> None
           | Some n1 \<Rightarrow>
               (case fdiv a2 (norm_2 (a0, a1, a2)) of
                  None \<Rightarrow> None
                | Some n2 \<Rightarrow> Some (n0, n1, n2))))"

subsection \<open>The overloads of \<^verbatim>\<open>abs\<close>\<close>

text \<open>
  The test of the normal calls \<^verbatim>\<open>abs\<close> without a namespace on a \<^verbatim>\<open>double\<close>. The headers
  that declare \<^verbatim>\<open>abs\<close> are not part of the source file, and the overload that is selected
  depends on them: with \<^verbatim>\<open>double abs(double)\<close> in scope the call is the absolute value;
  with only \<^verbatim>\<open>int abs(int)\<close> in scope the argument is first converted to \<^verbatim>\<open>int\<close>, which
  truncates towards zero, and the \<^verbatim>\<open>int\<close> result is converted back for the comparison.
  The selected overload is a parameter of the model, the first argument of every function
  that reaches the test. As for the grid indices, the conversion to \<^verbatim>\<open>int\<close> is idealised
  as a conversion to \<^typ>\<open>int\<close>.
\<close>

datatype abs_overload = AbsDouble | AbsInt

fun abs_overloaded :: "abs_overload \<Rightarrow> real \<Rightarrow> real" where
  "abs_overloaded AbsDouble x = \<bar>x\<bar>"
| "abs_overloaded AbsInt x = of_int \<bar>if 0 \<le> x then \<lfloor>x\<rfloor> else \<lceil>x\<rceil>\<bar>"

subsection \<open>The smoothness residual\<close>

text \<open>
  \<^verbatim>\<open>SmoothnessError::operator()\<close>. The four residuals are computed, then each is multiplied
  by the weight. Nothing in the \<^verbatim>\<open>try\<close> block calls the camera, so the \<^verbatim>\<open>catch\<close> branch
  that stores the sentinel is never entered. The result is the returned flag and the four
  residuals; \<open>tl0\<close> stands for \<^verbatim>\<open>tl[0]\<close>, and so on.
\<close>

record SmoothnessError =
  m_smoothness_weight :: real
  m_grid_size :: real

definition SmoothnessError_call ::
  "SmoothnessError \<Rightarrow> real \<Rightarrow> real \<Rightarrow> real \<Rightarrow> real \<Rightarrow> real \<Rightarrow> real \<Rightarrow> real \<Rightarrow> real \<Rightarrow> real
     \<Rightarrow> (bool \<times> real \<times> real \<times> real \<times> real) outcome" where
  "SmoothnessError_call self tl0 top0 tr0 left0 center0 right0 bl0 bottom0 br0 =
     (let gs = m_grid_size self * m_grid_size self in
      case fdiv (left0 + right0 - 2 * center0) gs of
        None \<Rightarrow> NotFinite
      | Some r0 \<Rightarrow>
          (case fdiv ((tr0 + bl0 - tl0 - br0) / 4) gs of
             None \<Rightarrow> NotFinite
           | Some r1 \<Rightarrow>
               (let r2 = r1 in
                case fdiv (top0 + bottom0 - 2 * center0) gs of
                  None \<Rightarrow> NotFinite
                | Some r3 \<Rightarrow>
                    Returns (True,
                             r0 * m_smoothness_weight self,
                             r1 * m_smoothness_weight self,
                             r2 * m_smoothness_weight self,
                             r3 * m_smoothness_weight self))))"

subsection \<open>The reflectance model\<close>

text \<open>The anonymous enumeration \<^verbatim>\<open>{NO_REFL = 0, LAMBERT, LUNAR_LAMBERT}\<close>.\<close>

definition NO_REFL :: int where "NO_REFL = 0"
definition LAMBERT :: int where "LAMBERT = 1"
definition LUNAR_LAMBERT :: int where "LUNAR_LAMBERT = 2"

text \<open>The fields of \<^verbatim>\<open>GlobalParams\<close> and \<^verbatim>\<open>ModelParams\<close> that the residual model reads.\<close>

record GlobalParams =
  reflectanceType :: int
  phaseCoeffC1 :: real
  phaseCoeffC2 :: real

record ModelParams =
  sunPosition :: Vector3
  cameraPosition :: Vector3

definition computeLambertianReflectanceFromNormal ::
  "Vector3 \<Rightarrow> Vector3 \<Rightarrow> Vector3 \<Rightarrow> real outcome" where
  "computeLambertianReflectanceFromNormal sunPos xyz normal =
     (case normalize (vsub sunPos xyz) of
        None \<Rightarrow> NotFinite
      | Some sunDirection \<Rightarrow> Returns (dot_prod sunDirection normal))"

text \<open>
  \<^verbatim>\<open>computeLunarLambertianReflectanceFromNormal\<close>. The result pairs the returned
  reflectance with the output parameter \<^verbatim>\<open>alpha\<close>, which is \<open>None\<close> on the paths that
  return before it is assigned. The test of the normal goes through the selected overload
  of \<^verbatim>\<open>abs\<close>. \<^verbatim>\<open>acos\<close> of a number outside \<open>[-1, 1]\<close> is a NaN; the
  source prints a message there and goes on. The quotient in the reflectance is guarded by
  the source itself.
\<close>

definition computeLunarLambertianReflectanceFromNormal ::
  "abs_overload \<Rightarrow> Vector3 \<Rightarrow> Vector3 \<Rightarrow> Vector3 \<Rightarrow> Vector3 \<Rightarrow> real \<Rightarrow> real \<Rightarrow> (real \<times> real option) outcome" where
  "computeLunarLambertianReflectanceFromNormal ov sunPos viewPos xyz normal phaseCoeffC1' phaseCoeffC2' =
     (let len = dot_prod normal normal in
      if abs_overloaded ov (len - 1) > 1 / 10 ^ 4 then Exits
      else
        case normalize (vsub sunPos xyz) of
          None \<Rightarrow> NotFinite
        | Some sunDirection \<Rightarrow>
            (let mu_0 = dot_prod sunDirection normal;
                 tol = 3 / 10 in
             if mu_0 < tol then Returns (0, None)
             else
               case normalize (vsub viewPos xyz) of
                 None \<Rightarrow> NotFinite
               | Some viewDirection \<Rightarrow>
                   (let mu = dot_prod viewDirection normal;
                        cos_alpha = dot_prod sunDirection viewDirection in
                    if cos_alpha > 1 \<or> cos_alpha < - 1 then NotFinite
                    else
                      (let alpha = arccos cos_alpha;
                           deg_alpha = alpha * 180 / pi;
                           A = - (19 / 1000);
                           B = 242 / 1000000;
                           C = - (146 / 100000000);
                           L = 1 + A * deg_alpha + B * deg_alpha * deg_alpha
                                 + C * deg_alpha * deg_alpha * deg_alpha in
                       if mu_0 < 0 then Returns (0, Some alpha)
                       else
                         (let mu' = (if mu < 0 then 0 else mu) in
                          if mu_0 + mu' = 0 then Returns (0, Some alpha)
                          else
                            (let reflectance = 2 * L * mu_0 / (mu_0 + mu') + (1 - L) * mu_0 in
                             if reflectance \<le> 0 then Returns (0, Some alpha)
                             else Returns (reflectance * (exp (- phaseCoeffC1' * alpha) + phaseCoeffC2'),
                                           Some alpha)))))))"

definition ComputeReflectance ::
  "abs_overload \<Rightarrow> Vector3 \<Rightarrow> Vector3 \<Rightarrow> ModelParams \<Rightarrow> GlobalParams \<Rightarrow> (real \<times> real option) outcome" where
  "ComputeReflectance ov normal xyz input_img_params global_params =
     (if reflectanceType global_params = LUNAR_LAMBERT then
        computeLunarLambertianReflectanceFromNormal ov
          (sunPosition input_img_params) (cameraPosition input_img_params) xyz normal
          (phaseCoeffC1 global_params) (phaseCoeffC2 global_params)
      else if reflectanceType global_params = LAMBERT then
        (case computeLambertianReflectanceFromNormal (sunPosition input_img_params) xyz normal of
           Returns r \<Rightarrow> Returns (r, None)
         | Exits \<Rightarrow> Exits
         | PointToPixelErr \<Rightarrow> PointToPixelErr
         | NotFinite \<Rightarrow> NotFinite)
      else Returns (1, None))"

subsection \<open>The collaborators\<close>

text \<open>
  The geo-reference, the camera and the interpolated image belong to other libraries. Each
  is a record of the operations the source calls: \<^verbatim>\<open>geo.pixel_to_lonlat\<close>,
  \<^verbatim>\<open>geo.datum().geodetic_to_cartesian\<close>, \<^verbatim>\<open>camera->point_to_pixel\<close> (\<open>None\<close> when it
  throws \<^verbatim>\<open>PointToPixelErr\<close>), and for the image \<^verbatim>\<open>cols()\<close>, \<^verbatim>\<open>rows()\<close> and the
  bilinear lookup \<^verbatim>\<open>image(x, y)\<close>.
\<close>

record GeoReference =
  pixel_to_lonlat :: "Vector2 \<Rightarrow> Vector2"
  geodetic_to_cartesian :: "Vector3 \<Rightarrow> Vector3"

record CameraModel =
  point_to_pixel :: "Vector3 \<Rightarrow> Vector2 option"

record BilinearInterpT =
  interp_cols :: int
  interp_rows :: int
  interp_at :: "real \<Rightarrow> real \<Rightarrow> real"

record ImageView =
  cols :: int
  rows :: int
  pixel :: "int \<Rightarrow> int \<Rightarrow> real"

definition set_pixel :: "ImageView \<Rightarrow> int \<Rightarrow> int \<Rightarrow> real \<Rightarrow> ImageView" where
  "set_pixel I col row v =
     I\<lparr>pixel := \<lambda>c r. if c = col \<and> r = row then v else pixel I c r\<rparr>"

text \<open>
  \<^verbatim>\<open>set_size\<close> on a freshly constructed image allocates \<open>cols * rows\<close> pixels; the
  library fills arithmetic pixel types with zero.
\<close>

definition set_size :: "int \<Rightarrow> int \<Rightarrow> ImageView" where
  "set_size c r = \<lparr>cols = c, rows = r, pixel = \<lambda>_ _. 0\<rparr>"

subsection \<open>One sample: reflectance and intensity at a grid point\<close>

text \<open>
  The end of \<^verbatim>\<open>computeReflectanceAndIntensity\<close> (the range check and the lookup): \<open>None\<close>
  is \<^verbatim>\<open>return false\<close>, \<open>Some i\<close> is the intensity stored before \<^verbatim>\<open>return true\<close>.
\<close>

definition observe_pixel :: "BilinearInterpT \<Rightarrow> Vector2 \<Rightarrow> real option" where
  "observe_pixel image' pix =
     (if fst pix < 0 \<or> fst pix \<ge> of_int (interp_cols image' - 1) then None
      else if snd pix < 0 \<or> snd pix \<ge> of_int (interp_rows image' - 1) then None
      else Some (interp_at image' (fst pix) (snd pix)))"

text \<open>
  \<^verbatim>\<open>computeReflectanceAndIntensity\<close> for one grid point. The global \<^verbatim>\<open>g_errorCount\<close> is
  threaded through: the last argument is its value before the call, the second component
  of the result its value after. A returning call gives the flag and the two output
  parameters \<^verbatim>\<open>reflectance\<close> and \<^verbatim>\<open>intensity\<close>. The parameter \<^verbatim>\<open>A\<close> of the source is
  never read in the body and is left out.
\<close>

definition computeReflectanceAndIntensity ::
  "abs_overload \<Rightarrow> real \<Rightarrow> real \<Rightarrow> real \<Rightarrow> int \<Rightarrow> int \<Rightarrow> ImageView \<Rightarrow> GeoReference \<Rightarrow> real
     \<Rightarrow> ModelParams \<Rightarrow> GlobalParams \<Rightarrow> BilinearInterpT \<Rightarrow> CameraModel \<Rightarrow> int
     \<Rightarrow> (bool \<times> real \<times> real) outcome \<times> int" where
  "computeReflectanceAndIntensity ov center_h right_h top_h col row dem geo nodata_val
       model_params global_params image' camera g_errorCount =
     (if col \<ge> cols dem - 1 \<or> row \<ge> rows dem - 1 then (Returns (False, 0, 0), g_errorCount)
      else
        (let lonlat = pixel_to_lonlat geo (of_int col, of_int row);
             h = center_h in
         if h = nodata_val \<and> g_errorCount = 0 then (Returns (False, 0, 0), g_errorCount + 1)
         else
           (let base = geodetic_to_cartesian geo (fst lonlat, snd lonlat, h);
                lonlat = pixel_to_lonlat geo (of_int (col + 1), of_int row);
                h = right_h in
            if h = nodata_val \<and> g_errorCount = 0 then (Returns (False, 0, 0), g_errorCount + 1)
            else
              (let right = geodetic_to_cartesian geo (fst lonlat, snd lonlat, h);
                   lonlat = pixel_to_lonlat geo (of_int col, of_int (row + 1));
                   h = top_h in
               if h = nodata_val \<and> g_errorCount = 0 then (Returns (False, 0, 0), g_errorCount + 1)
               else
                 (let top' = geodetic_to_cartesian geo (fst lonlat, snd lonlat, h);
                      dx = vsub right base;
                      dy = vsub top' base in
                  case normalize (cross_prod dx dy) of
                    None \<Rightarrow> (NotFinite, g_errorCount)
                  | Some n \<Rightarrow>
                      (let normal = vneg n in
                       case ComputeReflectance ov normal base model_params global_params of
                         Exits \<Rightarrow> (Exits, g_errorCount)
                       | PointToPixelErr \<Rightarrow> (PointToPixelErr, g_errorCount)
                       | NotFinite \<Rightarrow> (NotFinite, g_errorCount)
                       | Returns (reflectance, phase_angle) \<Rightarrow>
                           (case point_to_pixel camera base of
                              None \<Rightarrow> (PointToPixelErr, g_errorCount)
                            | Some pix \<Rightarrow>
                                (case observe_pixel image' pix of
                                   None \<Rightarrow> (Returns (False, reflectance, 0), g_errorCount)
                                 | Some intensity \<Rightarrow>
                                     (Returns (True, reflectance, intensity), g_errorCount)))))))))"

subsection \<open>The pass over the whole grid\<close>

text \<open>
  The second overload of \<^verbatim>\<open>computeReflectanceAndIntensity\<close>: both images get the size
  of the DEM, then the sample at every \<open>(col, row)\<close> with \<open>col < cols - 1\<close> and
  \<open>row < rows - 1\<close> is stored into them, whatever flag the sample returns. The state of the
  loops is the pair of images and the error counter; an exit or an exception of one sample
  ends the pass.
\<close>

definition grid_sample ::
  "abs_overload \<Rightarrow> ImageView \<Rightarrow> GeoReference \<Rightarrow> real \<Rightarrow> ModelParams \<Rightarrow> GlobalParams \<Rightarrow> BilinearInterpT
     \<Rightarrow> CameraModel \<Rightarrow> int \<Rightarrow> int
     \<Rightarrow> (ImageView \<times> ImageView) outcome \<times> int \<Rightarrow> (ImageView \<times> ImageView) outcome \<times> int" where
  "grid_sample ov dem geo nodata_val model_params global_params image' camera col row st =
     (case st of
        (Returns (reflectance, intensity), g_errorCount) \<Rightarrow>
          (case computeReflectanceAndIntensity ov
                  (pixel dem col row) (pixel dem (col + 1) row) (pixel dem col (row + 1))
                  col row dem geo nodata_val model_params global_params image' camera
                  g_errorCount of
             (Returns (ok, r, i), g_errorCount') \<Rightarrow>
               (Returns (set_pixel reflectance col row r, set_pixel intensity col row i),
                g_errorCount')
           | (Exits, g_errorCount') \<Rightarrow> (Exits, g_errorCount')
           | (PointToPixelErr, g_errorCount') \<Rightarrow> (PointToPixelErr, g_errorCount')
           | (NotFinite, g_errorCount') \<Rightarrow> (NotFinite, g_errorCount'))
      | (Exits, g_errorCount) \<Rightarrow> (Exits, g_errorCount)
      | (PointToPixelErr, g_errorCount) \<Rightarrow> (PointToPixelErr, g_errorCount)
      | (NotFinite, g_errorCount) \<Rightarrow> (NotFinite, g_errorCount))"

definition computeReflectanceAndIntensity_grid ::
  "abs_overload \<Rightarrow> ImageView \<Rightarrow> GeoReference \<Rightarrow> real \<Rightarrow> ModelParams \<Rightarrow> GlobalParams \<Rightarrow> BilinearInterpT
     \<Rightarrow> CameraModel \<Rightarrow> int \<Rightarrow> (ImageView \<times> ImageView) outcome \<times> int" where
  "computeReflectanceAndIntensity_grid ov dem geo nodata_val model_params global_params image'
       camera g_errorCount =
     fold (\<lambda>col. fold (\<lambda>row. grid_sample ov dem geo nodata_val model_params global_params image'
                                 camera col row)
                      [0 .. rows dem - 2])
          [0 .. cols dem - 2]
          (Returns (set_size (cols dem) (rows dem), set_size (cols dem) (rows dem)),
           g_errorCount)"

subsection \<open>Image statistics and the affine parameters\<close>

text \<open>
  \<^verbatim>\<open>compute_image_stats\<close>. The test \<^verbatim>\<open>is_valid\<close> belongs to the image library and is a
  parameter here. The accumulator is \<open>(sum1, sum2, count)\<close>, with \<open>sum1\<close> for \<^verbatim>\<open>sum\<close>.
\<close>

definition stats_pixel ::
  "(real \<Rightarrow> bool) \<Rightarrow> ImageView \<Rightarrow> int \<Rightarrow> int \<Rightarrow> real \<times> real \<times> real \<Rightarrow> real \<times> real \<times> real" where
  "stats_pixel is_valid I col row acc =
     (case acc of
        (sum1, sum2, count) \<Rightarrow>
          if \<not> is_valid (pixel I col row) then (sum1, sum2, count)
          else (let count = count + 1;
                    val = pixel I col row in
                (sum1 + val, sum2 + val * val, count)))"

definition compute_image_stats :: "(real \<Rightarrow> bool) \<Rightarrow> ImageView \<Rightarrow> real \<times> real" where
  "compute_image_stats is_valid I =
     (case fold (\<lambda>col. fold (\<lambda>row. stats_pixel is_valid I col row) [0 .. rows I - 1])
                [0 .. cols I - 1] (0, 0, 0) of
        (sum1, sum2, count) \<Rightarrow>
          if count > 0 then
            (let mean = sum1 / count;
                 stdev = sqrt (sum2 / count - mean * mean) in
             (mean, stdev))
          else (0, 0))"

text \<open>
  The estimation of \<^verbatim>\<open>A[0]\<close> and \<^verbatim>\<open>A[1]\<close> in \<^verbatim>\<open>main\<close>: the pass over the grid, the
  statistics of both images, and the unguarded quotient of the two standard deviations.
\<close>

definition main_estimate_A ::
  "abs_overload \<Rightarrow> (real \<Rightarrow> bool) \<Rightarrow> ImageView \<Rightarrow> GeoReference \<Rightarrow> real \<Rightarrow> ModelParams \<Rightarrow> GlobalParams
     \<Rightarrow> BilinearInterpT \<Rightarrow> CameraModel \<Rightarrow> int \<Rightarrow> (real \<times> real) outcome \<times> int" where
  "main_estimate_A ov is_valid dem geo nodata_val model_params global_params image' camera
       g_errorCount =
     (case computeReflectanceAndIntensity_grid ov dem geo nodata_val model_params global_params
             image' camera g_errorCount of
        (Returns (reflectance, intensity), g_errorCount') \<Rightarrow>
          (case compute_image_stats is_valid intensity of
             (imgmean, imgstdev) \<Rightarrow>
               (case compute_image_stats is_valid reflectance of
                  (refmean, refstdev) \<Rightarrow>
                    (case fdiv imgstdev refstdev of
                       None \<Rightarrow> (NotFinite, g_errorCount')
                     | Some A0 \<Rightarrow> (Returns (A0, imgmean - A0 * refmean), g_errorCount'))))
      | (Exits, g_errorCount') \<Rightarrow> (Exits, g_errorCount')
      | (PointToPixelErr, g_errorCount') \<Rightarrow> (PointToPixelErr, g_errorCount')
      | (NotFinite, g_errorCount') \<Rightarrow> (NotFinite, g_errorCount'))"

subsection \<open>The intensity residual\<close>

record IntensityError =
  m_col :: int
  m_row :: int
  m_dem :: ImageView
  m_geo :: GeoReference
  m_global_params :: GlobalParams
  m_model_params :: ModelParams
  m_image :: BilinearInterpT
  m_camera :: CameraModel
  m_nodata_val :: real

text \<open>
  \<^verbatim>\<open>IntensityError::operator()\<close> at \<^verbatim>\<open>T = double\<close>. The residual is preset to \<open>1e+20\<close>;
  the \<^verbatim>\<open>catch\<close> clause turns the camera exception into \<^verbatim>\<open>return false\<close>. The result is
  the returned flag and \<^verbatim>\<open>residuals[0]\<close>.
\<close>

definition IntensityError_call ::
  "abs_overload \<Rightarrow> IntensityError \<Rightarrow> real \<times> real \<Rightarrow> real \<Rightarrow> real \<Rightarrow> real \<Rightarrow> real \<Rightarrow> real \<Rightarrow> real \<Rightarrow> real \<Rightarrow> real
     \<Rightarrow> real \<Rightarrow> int \<Rightarrow> (bool \<times> real) outcome \<times> int" where
  "IntensityError_call ov self A tl0 top0 tr0 left0 center0 right0 bl0 bottom0 br0 g_errorCount =
     (let residual = 10 ^ 20 in
      case computeReflectanceAndIntensity ov center0 right0 top0 (m_col self) (m_row self)
             (m_dem self) (m_geo self) (m_nodata_val self) (m_model_params self)
             (m_global_params self) (m_image self) (m_camera self) g_errorCount of
        (Returns (success, reflectance, intensity), g_errorCount') \<Rightarrow>
          (Returns (success,
                    if success then intensity - fst A * reflectance - snd A else residual),
           g_errorCount')
      | (PointToPixelErr, g_errorCount') \<Rightarrow> (Returns (False, residual), g_errorCount')
      | (Exits, g_errorCount') \<Rightarrow> (Exits, g_errorCount')
      | (NotFinite, g_errorCount') \<Rightarrow> (NotFinite, g_errorCount'))"

subsection \<open>Assembling the problem\<close>

text \<open>
  A parameter block of the solver is an address: the array \<^verbatim>\<open>A\<close> or one DEM cell
  \<^verbatim>\<open>&dem(col, row)\<close>. Of \<^verbatim>\<open>ceres::Problem\<close> the model keeps the residual blocks in the
  order they were added and the set of blocks marked constant.
\<close>

datatype block = ParamA | Cell int int

datatype cost = IntensityCost int int | SmoothnessCost

record Problem =
  residual_blocks :: "(cost \<times> block list) list"
  constant_blocks :: "block set"

definition empty_problem :: Problem where
  "empty_problem = \<lparr>residual_blocks = [], constant_blocks = {}\<rparr>"

definition AddResidualBlock :: "cost \<Rightarrow> block list \<Rightarrow> Problem \<Rightarrow> Problem" where
  "AddResidualBlock cost_function params problem =
     problem\<lparr>residual_blocks := residual_blocks problem @ [(cost_function, params)]\<rparr>"

definition SetParameterBlockConstant :: "block \<Rightarrow> Problem \<Rightarrow> Problem" where
  "SetParameterBlockConstant b problem =
     problem\<lparr>constant_blocks := insert b (constant_blocks problem)\<rparr>"

definition neighborhood :: "int \<Rightarrow> int \<Rightarrow> block list" where
  "neighborhood col row =
     [Cell (col - 1) (row + 1), Cell col (row + 1), Cell (col + 1) (row + 1),
      Cell (col - 1) row, Cell col row, Cell (col + 1) row,
      Cell (col - 1) (row - 1), Cell col (row - 1), Cell (col + 1) (row - 1)]"

text \<open>The body of the two loops of \<^verbatim>\<open>main\<close> for one grid point.\<close>

definition assemble_cell :: "int \<Rightarrow> int \<Rightarrow> int \<Rightarrow> int \<Rightarrow> Problem \<Rightarrow> Problem" where
  "assemble_cell ncols nrows col row problem =
     (let problem = AddResidualBlock (IntensityCost col row) (ParamA # neighborhood col row) problem;
          problem = AddResidualBlock SmoothnessCost (neighborhood col row) problem;
          problem = (if col = 1 then
                       SetParameterBlockConstant (Cell (col - 1) (row + 1))
                         (SetParameterBlockConstant (Cell (col - 1) row)
                           (SetParameterBlockConstant (Cell (col - 1) (row - 1)) problem))
                     else problem);
          problem = (if row = 1 then
                       SetParameterBlockConstant (Cell (col + 1) (row - 1))
                         (SetParameterBlockConstant (Cell col (row - 1))
                           (SetParameterBlockConstant (Cell (col - 1) (row - 1)) problem))
                     else problem);
          problem = (if col = ncols - 2 then
                       SetParameterBlockConstant (Cell (col + 1) (row + 1))
                         (SetParameterBlockConstant (Cell (col + 1) row)
                           (SetParameterBlockConstant (Cell (col + 1) (row - 1)) problem))
                     else problem);
          problem = (if row = nrows - 2 then
                       SetParameterBlockConstant (Cell (col + 1) (row + 1))
                         (SetParameterBlockConstant (Cell col (row + 1))
                           (SetParameterBlockConstant (Cell (col - 1) (row + 1)) problem))
                     else problem)
      in problem)"

definition main_assemble :: "int \<Rightarrow> int \<Rightarrow> Problem" where
  "main_assemble ncols nrows =
     SetParameterBlockConstant ParamA
       (fold (\<lambda>col. fold (\<lambda>row. assemble_cell ncols nrows col row) [1 .. nrows - 2])
             [1 .. ncols - 2] empty_problem)"

text \<open>
  What the solver may do to the DEM: a block marked constant keeps its value, any other cell
  takes the value the solver proposes for it.
\<close>

definition solver_update ::
  "Problem \<Rightarrow> (int \<Rightarrow> int \<Rightarrow> real) \<Rightarrow> (int \<Rightarrow> int \<Rightarrow> real) \<Rightarrow> int \<Rightarrow> int \<Rightarrow> real" where
  "solver_update problem dem proposed col row =
     (if Cell col row \<in> constant_blocks problem then dem col row else proposed col row)"

subsection \<open>The reflectance formula in the words of the specification\<close>

text \<open>
  The limb-darkening polynomial \<open>L\<close> in the phase angle in degrees, the reflectance
  \<open>2 * L * mu0 / (mu0 + mu') + (1 - L) * mu0\<close> before the phase correction, and the
  reflectance as the specification words it: the product with \<open>exp (- c1 * alpha) + c2\<close>,
  zero when \<open>mu0 + mu' = 0\<close>, and clamped to zero when the product is not positive.
\<close>

definition limb_darkening :: "real \<Rightarrow> real" where
  "limb_darkening d = 1 + (- (19 / 1000)) * d + (242 / 1000000) * d\<^sup>2 + (- (146 / 100000000)) * d ^ 3"

definition lunar_lambert_claimed :: "Vector3 \<Rightarrow> Vector3 \<Rightarrow> Vector3 \<Rightarrow> real \<Rightarrow> real \<Rightarrow> real" where
  "lunar_lambert_claimed sunDir viewDir normal c1 c2 =
     (let mu0 = dot_prod sunDir normal;
          mu' = max 0 (dot_prod viewDir normal);
          alpha = arccos (dot_prod sunDir viewDir);
          L = limb_darkening (alpha * 180 / pi);
          r = (2 * L * mu0 / (mu0 + mu') + (1 - L) * mu0) * (exp (- c1 * alpha) + c2) in
      if mu0 + mu' = 0 then 0 else if r \<le> 0 then 0 else r)"

definition lunar_lambert_unscaled :: "Vector3 \<Rightarrow> Vector3 \<Rightarrow> Vector3 \<Rightarrow> real" where
  "lunar_lambert_unscaled sunDir viewDir normal =
     (let mu0 = dot_prod sunDir normal;
          mu' = max 0 (dot_prod viewDir normal);
          L = limb_darkening (arccos (dot_prod sunDir viewDir) * 180 / pi) in
      2 * L * mu0 / (mu0 + mu') + (1 - L) * mu0)"

subsection \<open>Notions used in the statements\<close>

text \<open>
  The Cartesian position of the grid point \<open>(col, row)\<close> at height \<open>h\<close>, which
  \<^verbatim>\<open>computeReflectanceAndIntensity\<close> computes three times, and the normal it derives from
  the three positions.
\<close>

definition xyz_at :: "GeoReference \<Rightarrow> int \<Rightarrow> int \<Rightarrow> real \<Rightarrow> Vector3" where
  "xyz_at geo col row h =
     geodetic_to_cartesian geo
       (fst (pixel_to_lonlat geo (of_int col, of_int row)),
        snd (pixel_to_lonlat geo (of_int col, of_int row)), h)"

definition surface_normal ::
  "GeoReference \<Rightarrow> int \<Rightarrow> int \<Rightarrow> real \<Rightarrow> real \<Rightarrow> real \<Rightarrow> Vector3 option" where
  "surface_normal geo col row center_h right_h top_h =
     map_option vneg
       (normalize (cross_prod (vsub (xyz_at geo (col + 1) row right_h) (xyz_at geo col row center_h))
                              (vsub (xyz_at geo col (row + 1) top_h) (xyz_at geo col row center_h))))"

text \<open>The blocks that the body of the loops marks constant at the grid point \<open>(col, row)\<close>.\<close>

definition pinned_by :: "int \<Rightarrow> int \<Rightarrow> int \<Rightarrow> int \<Rightarrow> block set" where
  "pinned_by ncols nrows col row =
     (if col = 1 then {Cell (col - 1) (row - 1), Cell (col - 1) row, Cell (col - 1) (row + 1)} else {})
     \<union> (if row = 1 then {Cell (col - 1) (row - 1), Cell col (row - 1), Cell (col + 1) (row - 1)} else {})
     \<union> (if col = ncols - 2 then {Cell (col + 1) (row - 1), Cell (col + 1) row, Cell (col + 1) (row + 1)} else {})
     \<union> (if row = nrows - 2 then {Cell (col - 1) (row + 1), Cell col (row + 1), Cell (col + 1) (row + 1)} else {})"

text \<open>
  The pixel \<open>(c, r)\<close> of the two images holds the outputs of the sample at that grid point,
  taken at some value of the error counter, whatever flag the sample returned.
\<close>

definition stored_sample ::
  "abs_overload \<Rightarrow> ImageView \<Rightarrow> GeoReference \<Rightarrow> real \<Rightarrow> ModelParams \<Rightarrow> GlobalParams \<Rightarrow> BilinearInterpT
     \<Rightarrow> CameraModel \<Rightarrow> ImageView \<Rightarrow> ImageView \<Rightarrow> int \<Rightarrow> int \<Rightarrow> bool" where
  "stored_sample ov dem geo nodata_val model_params global_params image' camera reflectance
       intensity c r \<longleftrightarrow>
     (\<exists>e0 e1 ok.
        computeReflectanceAndIntensity ov
          (pixel dem c r) (pixel dem (c + 1) r) (pixel dem c (r + 1))
          c r dem geo nodata_val model_params global_params image' camera e0 =
        (Returns (ok, pixel reflectance c r, pixel intensity c r), e1))"

text \<open>
  The range of pixels in the words of the specification: inside
  \<open>[0, cols - 2] \<times> [0, rows - 2]\<close>.
\<close>

definition inside_claimed :: "BilinearInterpT \<Rightarrow> Vector2 \<Rightarrow> bool" where
  "inside_claimed image' pix \<longleftrightarrow>
     0 \<le> fst pix \<and> fst pix \<le> of_int (interp_cols image' - 2) \<and>
     0 \<le> snd pix \<and> snd pix \<le> of_int (interp_rows image' - 2)"

subsection \<open>Statistics in the words of the specification\<close>

text \<open>
  The pixels of an image in the order the loops visit them, those among them that pass the
  validity test, and the mean and the standard deviation of a list of values (both 0 for
  the empty list, the values \<^verbatim>\<open>compute_image_stats\<close> starts from).
\<close>

definition pixel_values :: "ImageView \<Rightarrow> real list" where
  "pixel_values I =
     concat (map (\<lambda>col. map (\<lambda>row. pixel I col row) [0 .. rows I - 1]) [0 .. cols I - 1])"

definition valid_values :: "(real \<Rightarrow> bool) \<Rightarrow> ImageView \<Rightarrow> real list" where
  "valid_values is_valid I = filter is_valid (pixel_values I)"

definition mean_of :: "real list \<Rightarrow> real" where
  "mean_of vs = (if vs = [] then 0 else sum_list vs / real (length vs))"

definition stdev_of :: "real list \<Rightarrow> real" where
  "stdev_of vs =
     (if vs = [] then 0
      else sqrt (sum_list (map (\<lambda>v. v * v) vs) / real (length vs) - mean_of vs * mean_of vs))"

subsection \<open>A small scene\<close>

text \<open>
  A scene for concrete evaluation: a chart in which longitude, latitude and height are the
  Cartesian coordinates, a flat 3x3 DEM of height 0, an orthographic camera looking along
  the third axis, an image of constant intensity \<open>0.5\<close>, sun and camera on the side the
  computed normal \<open>(0, 0, - 1)\<close> points to, and the reflectance parameters that \<^verbatim>\<open>main\<close>
  sets.
\<close>

definition flat_geo :: GeoReference where
  "flat_geo = \<lparr>pixel_to_lonlat = \<lambda>p. p, geodetic_to_cartesian = \<lambda>v. v\<rparr>"

definition flat_dem :: ImageView where
  "flat_dem = \<lparr>cols = 3, rows = 3, pixel = \<lambda>_ _. 0\<rparr>"

definition nadir_camera :: CameraModel where
  "nadir_camera = \<lparr>point_to_pixel = \<lambda>v. Some (fst v, fst (snd v))\<rparr>"

definition gray_image :: BilinearInterpT where
  "gray_image = \<lparr>interp_cols = 3, interp_rows = 3, interp_at = \<lambda>_ _. 1 / 2\<rparr>"

definition zenith_params :: ModelParams where
  "zenith_params = \<lparr>sunPosition = (0, 0, - 1), cameraPosition = (0, 0, - 1)\<rparr>"

definition main_global_params :: GlobalParams where
  "main_global_params =
     \<lparr>reflectanceType = LUNAR_LAMBERT, phaseCoeffC1 = 1383488 / 1000000,
      phaseCoeffC2 = 501149 / 1000000\<rparr>"

text \<open>
  The intensity residual of the scene at the grid point \<open>(0, 0)\<close>, with the no-data marker
  that \<^verbatim>\<open>main\<close> starts from, and a camera whose projection always throws.
\<close>

definition scene_residual :: IntensityError where
  "scene_residual =
     \<lparr>m_col = 0, m_row = 0, m_dem = flat_dem, m_geo = flat_geo,
      m_global_params = main_global_params, m_model_params = zenith_params,
      m_image = gray_image, m_camera = nadir_camera, m_nodata_val = - 32768\<rparr>"

definition blind_camera :: CameraModel where
  "blind_camera = \<lparr>point_to_pixel = \<lambda>_. None\<rparr>"

text \<open>
  A flat 2x2 DEM, whose pass over the grid takes the single sample at \<open>(0, 0)\<close>; a sun on
  the far side of the surface; a camera that projects every point to the pixel \<open>(- 1, 0)\<close>;
  and an image of one column \<open>1, 0\<close>.
\<close>

definition tiny_dem :: ImageView where
  "tiny_dem = \<lparr>cols = 2, rows = 2, pixel = \<lambda>_ _. 0\<rparr>"

definition night_params :: ModelParams where
  "night_params = \<lparr>sunPosition = (0, 0, 1), cameraPosition = (0, 0, - 1)\<rparr>"

definition offside_camera :: CameraModel where
  "offside_camera = \<lparr>point_to_pixel = \<lambda>_. Some (- 1, 0)\<rparr>"

definition step_image :: ImageView where
  "step_image = \<lparr>cols = 1, rows = 2, pixel = \<lambda>_ r. if r = 0 then 1 else 0\<rparr>"

section \<open>Properties\<close>

subsection \<open>Divisions and unit vectors\<close>

lemma dot_prod_self_nonneg: "0 \<le> dot_prod v v"
  by (cases v) simp

lemma norm_2_nonneg: "0 \<le> norm_2 v"
  by (simp add: norm_2_def dot_prod_self_nonneg)

lemma norm_2_square: "norm_2 v * norm_2 v = dot_prod v v"
  by (simp add: norm_2_def dot_prod_self_nonneg)

lemma normalize_Some:
  "normalize (a0, a1, a2) = Some n \<longleftrightarrow>
     norm_2 (a0, a1, a2) \<noteq> 0 \<and>
     n = (a0 / norm_2 (a0, a1, a2), a1 / norm_2 (a0, a1, a2), a2 / norm_2 (a0, a1, a2))"
  by (auto simp add: fdiv_def)

declare normalize.simps [simp del]

lemma normalize_unit:
  assumes "normalize v = Some n"
  shows "dot_prod n n = 1"
proof -
  obtain a0 a1 a2 where v: "v = (a0, a1, a2)" by (cases v)
  define l where "l = norm_2 (a0, a1, a2)"
  from assms v have l0: "l \<noteq> 0" and n: "n = (a0 / l, a1 / l, a2 / l)"
    by (simp_all add: normalize_Some l_def)
  have ll: "l * l = a0 * a0 + a1 * a1 + a2 * a2"
    using norm_2_square [of "(a0, a1, a2)"] by (simp add: l_def)
  have "dot_prod n n = (a0 * a0 + a1 * a1 + a2 * a2) / (l * l)"
    by (simp add: n add_divide_distrib)
  also have "\<dots> = (l * l) / (l * l)" by (simp only: ll)
  also have "\<dots> = 1" using l0 by simp
  finally show ?thesis .
qed

lemma vneg_unit: "dot_prod (vneg n) (vneg n) = dot_prod n n"
  by (cases n) simp

lemma unit_dot_bounds:
  assumes "dot_prod a a = 1" and "dot_prod b b = 1"
  shows "- 1 \<le> dot_prod a b \<and> dot_prod a b \<le> 1"
proof -
  obtain a0 a1 a2 where a: "a = (a0, a1, a2)" by (cases a)
  obtain b0 b1 b2 where b: "b = (b0, b1, b2)" by (cases b)
  have "0 \<le> (a0 - b0)\<^sup>2 + (a1 - b1)\<^sup>2 + (a2 - b2)\<^sup>2" by simp
  also have "\<dots> = dot_prod a a + dot_prod b b - 2 * dot_prod a b"
    by (simp add: a b power2_eq_square algebra_simps)
  finally have up: "dot_prod a b \<le> 1" using assms by simp
  have "0 \<le> (a0 + b0)\<^sup>2 + (a1 + b1)\<^sup>2 + (a2 + b2)\<^sup>2" by simp
  also have "\<dots> = dot_prod a a + dot_prod b b + 2 * dot_prod a b"
    by (simp add: a b power2_eq_square algebra_simps)
  finally have "- 1 \<le> dot_prod a b" using assms by simp
  with up show ?thesis by simp
qed

lemma normalize_eq:
  "normalize (a0, a1, a2) =
     (if norm_2 (a0, a1, a2) = 0 then None
      else Some (a0 / norm_2 (a0, a1, a2), a1 / norm_2 (a0, a1, a2), a2 / norm_2 (a0, a1, a2)))"
  by (simp add: normalize.simps fdiv_def)

lemma normalize_z_axis: "normalize (0, 0, 1) = Some (0, 0, 1)"
  by (simp add: normalize_eq norm_2_def)

lemma norm_2_axis: "norm_2 (x, 0, 0) = \<bar>x\<bar>"
  by (simp add: norm_2_def)

lemma norm_deviation:
  assumes "\<bar>norm_2 v - 1\<bar> > e" and "0 \<le> e"
  shows "\<bar>dot_prod v v - 1\<bar> > e"
proof -
  let ?m = "norm_2 v"
  have sq: "dot_prod v v - 1 = (?m - 1) * (?m + 1)"
    using norm_2_square [of v] by (simp add: algebra_simps)
  have "e < \<bar>?m - 1\<bar>" using assms by simp
  also have "\<dots> = \<bar>?m - 1\<bar> * 1" by simp
  also have "\<dots> \<le> \<bar>?m - 1\<bar> * \<bar>?m + 1\<bar>"
    using norm_2_nonneg [of v] by (intro mult_left_mono) simp_all
  finally show ?thesis by (simp add: sq abs_mult)
qed

lemma lambert_never_exits: "computeLambertianReflectanceFromNormal sunPos xyz normal \<noteq> Exits"
  by (simp add: computeLambertianReflectanceFromNormal_def split: option.splits)

lemma abs_overloaded_zero [simp]: "abs_overloaded ov 0 = 0"
  by (cases ov) simp_all

lemma abs_overloaded_le: "abs_overloaded ov x \<le> \<bar>x\<bar>"
proof (cases ov)
  case AbsDouble
  then show ?thesis by simp
next
  case AbsInt
  show ?thesis
  proof (cases "0 \<le> x")
    case True
    then have "0 \<le> \<lfloor>x\<rfloor>" by simp
    then have "of_int \<bar>\<lfloor>x\<rfloor>\<bar> = (of_int \<lfloor>x\<rfloor> :: real)" by simp
    also have "\<dots> \<le> x" by simp
    finally show ?thesis using True AbsInt by simp
  next
    case False
    then have "\<lceil>x\<rceil> \<le> 0" by (simp add: ceiling_le_iff)
    then have "of_int \<bar>\<lceil>x\<rceil>\<bar> = - (of_int \<lceil>x\<rceil> :: real)" by simp
    also have "\<dots> \<le> - x" by simp
    finally show ?thesis using False AbsInt by simp
  qed
qed

lemma unit_test_passes:
  assumes "\<bar>dot_prod normal normal - 1\<bar> \<le> 1 / 10 ^ 4"
  shows "\<not> abs_overloaded ov (dot_prod normal normal - 1) > 1 / 10 ^ 4"
  using assms abs_overloaded_le [of ov "dot_prod normal normal - 1"] by simp

lemma lunar_exits_iff:
  "computeLunarLambertianReflectanceFromNormal ov sunPos viewPos xyz normal c1 c2 = Exits
     \<longleftrightarrow> abs_overloaded ov (dot_prod normal normal - 1) > 1 / 10 ^ 4"
  by (simp add: computeLunarLambertianReflectanceFromNormal_def Let_def split: option.splits)

subsection \<open>The smoothness residual\<close>

text \<open>
  Claim C6. For every 3x3 neighbourhood of heights and every positive grid size the
  smoothness functor returns success with the four components
  \<open>weight * (left + right - 2 * center) / gs2\<close>, \<open>weight * (tr + bl - tl - br) / (4 * gs2)\<close>,
  the same value once more, and \<open>weight * (top + bottom - 2 * center) / gs2\<close>, where
  \<open>gs2\<close> is the square of the grid size. On a plane \<open>a + b * x + d * y\<close> sampled at the nine
  grid points (all heights equal when \<open>b = d = 0\<close>, a ramp along one axis when one of them
  is zero) all four components are zero.
\<close>

theorem smoothness_residual_components:
  assumes "0 < m_grid_size self"
  shows "SmoothnessError_call self tl0 top0 tr0 left0 center0 right0 bl0 bottom0 br0 =
           Returns (True,
                    m_smoothness_weight self * (left0 + right0 - 2 * center0) / (m_grid_size self)\<^sup>2,
                    m_smoothness_weight self * (tr0 + bl0 - tl0 - br0) / (4 * (m_grid_size self)\<^sup>2),
                    m_smoothness_weight self * (tr0 + bl0 - tl0 - br0) / (4 * (m_grid_size self)\<^sup>2),
                    m_smoothness_weight self * (top0 + bottom0 - 2 * center0) / (m_grid_size self)\<^sup>2)
         \<and> SmoothnessError_call self (a - b + d) (a + d) (a + b + d)
                                       (a - b) a (a + b)
                                       (a - b - d) (a - d) (a + b - d) =
           Returns (True, 0, 0, 0, 0)"
  using assms by (simp add: SmoothnessError_call_def fdiv_def power2_eq_square Let_def mult.commute)

theorem smoothness_residual_components_witness:
  "SmoothnessError_call \<lparr>m_smoothness_weight = 3, m_grid_size = 2\<rparr> 1 2 4 8 16 32 64 128 256 =
     Returns (True, 6, - (567 / 16), - (567 / 16), 147 / 2)
   \<and> SmoothnessError_call \<lparr>m_smoothness_weight = 3, m_grid_size = 2\<rparr> 6 7 8 4 5 6 2 3 4 =
     Returns (True, 0, 0, 0, 0)"
  using smoothness_residual_components
          [of "\<lparr>m_smoothness_weight = 3, m_grid_size = 2\<rparr>" 1 2 4 8 16 32 64 128 256 5 1 2]
  by simp

subsection \<open>The reflectance model\<close>

text \<open>
  Claim C3. For a normal of unit length (its squared length within \<open>1e-4\<close> of 1, so that
  it passes the test of the normal under either overload of \<^verbatim>\<open>abs\<close>), whenever the
  cosine \<open>mu_0\<close> between the sun direction and the normal is below \<open>0.3\<close> the
  Lunar-Lambertian reflectance is exactly 0, whatever the viewer position, the phase
  coefficients and the surface point are. The phase angle is not written on this path.
\<close>

theorem lunar_lambert_low_sun:
  assumes "\<bar>dot_prod normal normal - 1\<bar> \<le> 1 / 10 ^ 4"
    and "normalize (vsub sunPos xyz) = Some sunDirection"
    and "dot_prod sunDirection normal < 3 / 10"
  shows "computeLunarLambertianReflectanceFromNormal ov sunPos viewPos xyz normal c1 c2 =
           Returns (0, None)"
  using assms(2,3) unit_test_passes [OF assms(1), of ov]
  by (simp add: computeLunarLambertianReflectanceFromNormal_def Let_def)

theorem lunar_lambert_low_sun_witness:
  "computeLunarLambertianReflectanceFromNormal AbsDouble (0, 0, 1) (5, 6, 7) (0, 0, 0) (1, 0, 0) 3 4 =
     Returns (0, None)
   \<and> computeLunarLambertianReflectanceFromNormal AbsInt (0, 0, 1) (5, 6, 7) (0, 0, 0) (1, 0, 0) 3 4 =
     Returns (0, None)"
proof -
  have unit: "\<bar>dot_prod (1, 0, 0) (1, 0, 0) - 1\<bar> \<le> 1 / 10 ^ 4" by simp
  have sun: "normalize (vsub (0, 0, 1) (0, 0, 0)) = Some (0, 0, 1)"
    by (simp add: normalize_Some norm_2_def)
  have low: "dot_prod (0, 0, 1) (1, 0, 0) < 3 / 10" by simp
  show ?thesis
    using lunar_lambert_low_sun [OF unit sun low, of AbsDouble "(5, 6, 7)" 3 4]
          lunar_lambert_low_sun [OF unit sun low, of AbsInt "(5, 6, 7)" 3 4]
    by simp
qed

text \<open>
  Claim C2, as amended. For a unit normal and \<open>mu_0 \<ge> 0.3\<close> the call returns, the phase
  angle is \<open>arccos (dot_prod sunDir viewDir)\<close>, and the reflectance is 0 when the value
  \<open>2 * L * mu_0 / (mu_0 + mu') + (1 - L) * mu_0\<close> is not positive and that value times
  \<open>exp (- c1 * alpha) + c2\<close> otherwise: the clamp comes before the phase correction. When
  the correction factor is not negative (so for every \<open>c2 \<ge> 0\<close>), this is the reflectance
  in the words of the specification.
\<close>

theorem lunar_lambert_high_sun:
  assumes unit: "dot_prod normal normal = 1"
    and sun: "normalize (vsub sunPos xyz) = Some sunDir"
    and view: "normalize (vsub viewPos xyz) = Some viewDir"
    and mu0: "3 / 10 \<le> dot_prod sunDir normal"
  shows "computeLunarLambertianReflectanceFromNormal ov sunPos viewPos xyz normal c1 c2 =
           Returns (if lunar_lambert_unscaled sunDir viewDir normal \<le> 0 then 0
                    else lunar_lambert_unscaled sunDir viewDir normal
                           * (exp (- c1 * arccos (dot_prod sunDir viewDir)) + c2),
                    Some (arccos (dot_prod sunDir viewDir)))
         \<and> (0 \<le> exp (- c1 * arccos (dot_prod sunDir viewDir)) + c2 \<longrightarrow>
              computeLunarLambertianReflectanceFromNormal ov sunPos viewPos xyz normal c1 c2 =
                Returns (lunar_lambert_claimed sunDir viewDir normal c1 c2,
                         Some (arccos (dot_prod sunDir viewDir))))"
proof -
  let ?ms = "dot_prod sunDir normal"
  let ?mv = "dot_prod viewDir normal"
  let ?alpha = "arccos (dot_prod sunDir viewDir)"
  let ?R = "lunar_lambert_unscaled sunDir viewDir normal"
  let ?f = "exp (- c1 * ?alpha) + c2"
  have cos: "\<not> (dot_prod sunDir viewDir > 1 \<or> dot_prod sunDir viewDir < - 1)"
    using unit_dot_bounds [OF normalize_unit [OF sun] normalize_unit [OF view]] by simp
  have clamp: "(if ?mv < 0 then 0 else ?mv) = max 0 ?mv" by simp
  have pos: "?ms + max 0 ?mv \<noteq> 0" using mu0 by simp
  have L: "1 + - (19 / 1000) * d + 242 / 1000000 * d * d + - (146 / 100000000) * d * d * d
             = limb_darkening d" for d
    by (simp add: limb_darkening_def power2_eq_square power3_eq_cube)
  have code: "computeLunarLambertianReflectanceFromNormal ov sunPos viewPos xyz normal c1 c2 =
                Returns (if ?R \<le> 0 then 0 else ?R * ?f, Some ?alpha)"
    unfolding computeLunarLambertianReflectanceFromNormal_def Let_def sun view clamp L
              lunar_lambert_unscaled_def
    using unit mu0 cos pos by (simp add: abs_overloaded_zero)
  have claimed: "lunar_lambert_claimed sunDir viewDir normal c1 c2 =
                   (if ?R * ?f \<le> 0 then 0 else ?R * ?f)"
    unfolding lunar_lambert_claimed_def lunar_lambert_unscaled_def Let_def
    using pos by simp
  have "(if ?R \<le> 0 then 0 else ?R * ?f) = (if ?R * ?f \<le> 0 then 0 else ?R * ?f)" if "0 \<le> ?f"
    using that by (auto simp add: mult_le_0_iff)
  with code claimed show ?thesis by simp
qed

theorem lunar_lambert_high_sun_witness:
  "computeLunarLambertianReflectanceFromNormal AbsDouble (0, 0, 1) (0, 0, 1) (0, 0, 0) (0, 0, 1)
       (1383488 / 1000000) (501149 / 1000000) =
     Returns (1501149 / 1000000, Some 0)
   \<and> computeLunarLambertianReflectanceFromNormal AbsInt (0, 0, 1) (0, 0, 1) (0, 0, 0) (0, 0, 1)
       (1383488 / 1000000) (501149 / 1000000) =
     Returns (1501149 / 1000000, Some 0)"
proof -
  have sun: "normalize (vsub (0, 0, 1) (0, 0, 0)) = Some (0, 0, 1)"
    by (simp add: normalize_Some norm_2_def)
  have unit: "dot_prod (0, 0, 1) (0, 0, 1) = 1" by simp
  have mu0: "3 / 10 \<le> dot_prod (0, 0, 1) (0, 0, 1)" by simp
  show ?thesis
    using lunar_lambert_high_sun [OF unit sun sun mu0, where ov = AbsDouble,
                                  of "1383488 / 1000000" "501149 / 1000000"]
          lunar_lambert_high_sun [OF unit sun sun mu0, where ov = AbsInt,
                                  of "1383488 / 1000000" "501149 / 1000000"]
    by (simp add: lunar_lambert_unscaled_def limb_darkening_def)
qed

text \<open>
  With \<open>c1 = 0\<close> and \<open>c2 = - 2\<close> the correction factor is \<open>- 1\<close>: sun and viewer at the
  zenith of a unit normal give the reflectance \<open>- 1\<close>, which is not clamped, under either
  overload of \<^verbatim>\<open>abs\<close>.
\<close>

theorem lunar_lambert_high_sun_counterexample:
  "dot_prod (0, 0, 1) (0, 0, 1) = 1
   \<and> normalize (vsub (0, 0, 1) (0, 0, 0)) = Some (0, 0, 1)
   \<and> 3 / 10 \<le> dot_prod (0, 0, 1) (0, 0, 1)
   \<and> computeLunarLambertianReflectanceFromNormal AbsDouble (0, 0, 1) (0, 0, 1) (0, 0, 0) (0, 0, 1)
         0 (- 2) = Returns (- 1, Some 0)
   \<and> computeLunarLambertianReflectanceFromNormal AbsInt (0, 0, 1) (0, 0, 1) (0, 0, 0) (0, 0, 1)
         0 (- 2) = Returns (- 1, Some 0)
   \<and> lunar_lambert_claimed (0, 0, 1) (0, 0, 1) (0, 0, 1) 0 (- 2) = 0"
  by (simp add: computeLunarLambertianReflectanceFromNormal_def lunar_lambert_claimed_def
                limb_darkening_def normalize_z_axis)

text \<open>
  Claim C4, as amended. Under the Lambertian model and without a model the normal is not
  checked and the computation never exits. Under the Lunar-Lambertian model the test is on
  the squared length \<open>dot_prod normal normal\<close>: whichever overload of \<^verbatim>\<open>abs\<close> is selected,
  the computation does not exit when the squared length is within \<open>1e-4\<close> of 1; when the
  overload is \<^verbatim>\<open>double abs(double)\<close>, the computation exits exactly when the squared length
  differs from 1 by more than \<open>1e-4\<close>, which is the case whenever the length itself
  differs from 1 by more than \<open>1e-4\<close>.
\<close>

theorem unit_normal_check:
  "(reflectanceType global_params \<noteq> LUNAR_LAMBERT \<longrightarrow>
      ComputeReflectance ov normal xyz input_img_params global_params \<noteq> Exits)
   \<and> (reflectanceType global_params = LUNAR_LAMBERT
       \<and> \<bar>dot_prod normal normal - 1\<bar> \<le> 1 / 10 ^ 4 \<longrightarrow>
      ComputeReflectance ov normal xyz input_img_params global_params \<noteq> Exits)
   \<and> (reflectanceType global_params = LUNAR_LAMBERT \<longrightarrow>
      (ComputeReflectance AbsDouble normal xyz input_img_params global_params = Exits
         \<longleftrightarrow> \<bar>dot_prod normal normal - 1\<bar> > 1 / 10 ^ 4))
   \<and> (reflectanceType global_params = LUNAR_LAMBERT \<and> \<bar>norm_2 normal - 1\<bar> > 1 / 10 ^ 4 \<longrightarrow>
      ComputeReflectance AbsDouble normal xyz input_img_params global_params = Exits)"
proof -
  have other: "reflectanceType global_params \<noteq> LUNAR_LAMBERT \<longrightarrow>
      ComputeReflectance ov normal xyz input_img_params global_params \<noteq> Exits"
    using lambert_never_exits [of "sunPosition input_img_params" xyz normal]
    by (auto simp add: ComputeReflectance_def split: outcome.splits)
  have passes: "reflectanceType global_params = LUNAR_LAMBERT
       \<and> \<bar>dot_prod normal normal - 1\<bar> \<le> 1 / 10 ^ 4 \<longrightarrow>
      ComputeReflectance ov normal xyz input_img_params global_params \<noteq> Exits"
    using unit_test_passes [of normal ov]
    by (auto simp add: ComputeReflectance_def lunar_exits_iff)
  have exact: "reflectanceType global_params = LUNAR_LAMBERT \<longrightarrow>
      (ComputeReflectance AbsDouble normal xyz input_img_params global_params = Exits
         \<longleftrightarrow> \<bar>dot_prod normal normal - 1\<bar> > 1 / 10 ^ 4)"
    by (simp add: ComputeReflectance_def lunar_exits_iff)
  have "\<bar>norm_2 normal - 1\<bar> > 1 / 10 ^ 4 \<Longrightarrow> \<bar>dot_prod normal normal - 1\<bar> > 1 / 10 ^ 4"
    by (rule norm_deviation) simp_all
  with exact have length: "reflectanceType global_params = LUNAR_LAMBERT
       \<and> \<bar>norm_2 normal - 1\<bar> > 1 / 10 ^ 4 \<longrightarrow>
      ComputeReflectance AbsDouble normal xyz input_img_params global_params = Exits"
    by blast
  from other passes exact length show ?thesis by (intro conjI)
qed

theorem unit_normal_check_witness:
  "ComputeReflectance AbsInt (2, 0, 0) (0, 0, 0)
     \<lparr>sunPosition = (0, 0, 1), cameraPosition = (0, 0, 1)\<rparr>
     \<lparr>reflectanceType = LAMBERT, phaseCoeffC1 = 0, phaseCoeffC2 = 0\<rparr> \<noteq> Exits
   \<and> ComputeReflectance AbsInt (1, 0, 0) (0, 0, 0)
     \<lparr>sunPosition = (0, 0, 1), cameraPosition = (0, 0, 1)\<rparr>
     \<lparr>reflectanceType = LUNAR_LAMBERT, phaseCoeffC1 = 0, phaseCoeffC2 = 0\<rparr> \<noteq> Exits
   \<and> ComputeReflectance AbsDouble (1, 0, 0) (0, 0, 0)
     \<lparr>sunPosition = (0, 0, 1), cameraPosition = (0, 0, 1)\<rparr>
     \<lparr>reflectanceType = LUNAR_LAMBERT, phaseCoeffC1 = 0, phaseCoeffC2 = 0\<rparr> \<noteq> Exits
   \<and> ComputeReflectance AbsDouble (10001 / 10000, 0, 0) (0, 0, 0)
     \<lparr>sunPosition = (0, 0, 1), cameraPosition = (0, 0, 1)\<rparr>
     \<lparr>reflectanceType = LUNAR_LAMBERT, phaseCoeffC1 = 0, phaseCoeffC2 = 0\<rparr> = Exits
   \<and> ComputeReflectance AbsDouble (2, 0, 0) (0, 0, 0)
     \<lparr>sunPosition = (0, 0, 1), cameraPosition = (0, 0, 1)\<rparr>
     \<lparr>reflectanceType = LUNAR_LAMBERT, phaseCoeffC1 = 0, phaseCoeffC2 = 0\<rparr> = Exits"
proof -
  let ?mp = "\<lparr>sunPosition = (0, 0, 1), cameraPosition = (0, 0, 1)\<rparr>"
  let ?lambert = "\<lparr>reflectanceType = LAMBERT, phaseCoeffC1 = 0, phaseCoeffC2 = 0\<rparr>"
  let ?lunar = "\<lparr>reflectanceType = LUNAR_LAMBERT, phaseCoeffC1 = 0, phaseCoeffC2 = 0\<rparr>"
  have a: "ComputeReflectance AbsInt (2, 0, 0) (0, 0, 0) ?mp ?lambert \<noteq> Exits"
    using unit_normal_check [where global_params = ?lambert and ov = AbsInt
            and normal = "(2, 0, 0)" and xyz = "(0, 0, 0)" and input_img_params = ?mp]
    by (simp add: LUNAR_LAMBERT_def LAMBERT_def)
  have b: "ComputeReflectance AbsInt (1, 0, 0) (0, 0, 0) ?mp ?lunar \<noteq> Exits"
    using unit_normal_check [where global_params = ?lunar and ov = AbsInt
            and normal = "(1, 0, 0)" and xyz = "(0, 0, 0)" and input_img_params = ?mp]
    by simp
  have c: "ComputeReflectance AbsDouble (1, 0, 0) (0, 0, 0) ?mp ?lunar \<noteq> Exits"
    using unit_normal_check [where global_params = ?lunar and ov = AbsDouble
            and normal = "(1, 0, 0)" and xyz = "(0, 0, 0)" and input_img_params = ?mp]
    by simp
  have d: "ComputeReflectance AbsDouble (10001 / 10000, 0, 0) (0, 0, 0) ?mp ?lunar = Exits"
    using unit_normal_check [where global_params = ?lunar and ov = AbsDouble
            and normal = "(10001 / 10000, 0, 0)" and xyz = "(0, 0, 0)" and input_img_params = ?mp]
    by simp
  have e: "ComputeReflectance AbsDouble (2, 0, 0) (0, 0, 0) ?mp ?lunar = Exits"
    using unit_normal_check [where global_params = ?lunar and ov = AbsDouble
            and normal = "(2, 0, 0)" and xyz = "(0, 0, 0)" and input_img_params = ?mp]
    by (simp add: norm_2_axis)
  from a b c d e show ?thesis by (intro conjI)
qed

text \<open>
  The Lambertian model returns for a normal of length 2, under either overload of
  \<^verbatim>\<open>abs\<close>.
\<close>

theorem unit_normal_check_counterexample:
  "\<bar>norm_2 (2, 0, 0) - 1\<bar> > 1 / 10 ^ 4
   \<and> ComputeReflectance AbsDouble (2, 0, 0) (0, 0, 0)
        \<lparr>sunPosition = (0, 0, 1), cameraPosition = (0, 0, 1)\<rparr>
        \<lparr>reflectanceType = LAMBERT, phaseCoeffC1 = 0, phaseCoeffC2 = 0\<rparr> = Returns (0, None)
   \<and> ComputeReflectance AbsInt (2, 0, 0) (0, 0, 0)
        \<lparr>sunPosition = (0, 0, 1), cameraPosition = (0, 0, 1)\<rparr>
        \<lparr>reflectanceType = LAMBERT, phaseCoeffC1 = 0, phaseCoeffC2 = 0\<rparr> = Returns (0, None)"
  by (simp add: norm_2_axis ComputeReflectance_def LUNAR_LAMBERT_def LAMBERT_def
                computeLambertianReflectanceFromNormal_def normalize_z_axis)

subsection \<open>One sample\<close>

text \<open>The sample, with the three no-data tests merged and the positions named.\<close>

lemma sample_unfold:
  "computeReflectanceAndIntensity ov center_h right_h top_h col row dem geo nodata_val
       model_params global_params image' camera g_errorCount =
     (if col \<ge> cols dem - 1 \<or> row \<ge> rows dem - 1 then (Returns (False, 0, 0), g_errorCount)
      else if (center_h = nodata_val \<or> right_h = nodata_val \<or> top_h = nodata_val)
              \<and> g_errorCount = 0 then (Returns (False, 0, 0), 1)
      else
        (case surface_normal geo col row center_h right_h top_h of
           None \<Rightarrow> (NotFinite, g_errorCount)
         | Some normal \<Rightarrow>
             (case ComputeReflectance ov normal (xyz_at geo col row center_h) model_params global_params of
                Exits \<Rightarrow> (Exits, g_errorCount)
              | PointToPixelErr \<Rightarrow> (PointToPixelErr, g_errorCount)
              | NotFinite \<Rightarrow> (NotFinite, g_errorCount)
              | Returns (reflectance, phase_angle) \<Rightarrow>
                  (case point_to_pixel camera (xyz_at geo col row center_h) of
                     None \<Rightarrow> (PointToPixelErr, g_errorCount)
                   | Some pix \<Rightarrow>
                       (case observe_pixel image' pix of
                          None \<Rightarrow> (Returns (False, reflectance, 0), g_errorCount)
                        | Some intensity \<Rightarrow>
                            (Returns (True, reflectance, intensity), g_errorCount))))))"
  unfolding computeReflectanceAndIntensity_def surface_normal_def xyz_at_def Let_def
  by (simp split: option.splits)

lemma normalize_neg_z_axis: "normalize (0, 0, - 1) = Some (0, 0, - 1)"
  by (simp add: normalize_eq norm_2_def)

lemma scene_reflectance:
  "ComputeReflectance ov (0, 0, - 1) (0, 0, 0) zenith_params main_global_params =
     Returns (1501149 / 1000000, Some 0)"
  by (simp add: ComputeReflectance_def main_global_params_def zenith_params_def
                computeLunarLambertianReflectanceFromNormal_def normalize_neg_z_axis)

lemma scene_normal: "surface_normal flat_geo 0 0 0 0 0 = Some (0, 0, - 1)"
  by (simp add: surface_normal_def xyz_at_def flat_geo_def normalize_z_axis)

lemma scene_xyz: "xyz_at flat_geo 0 0 0 = (0, 0, 0)"
  by (simp add: xyz_at_def flat_geo_def)

lemma flat_size: "cols flat_dem = 3" "rows flat_dem = 3"
  by (simp_all add: flat_dem_def)

lemma scene_sample:
  assumes "1 < cols dem" and "1 < rows dem" and "nodata_val \<noteq> 0 \<or> g_errorCount \<noteq> 0"
  shows "computeReflectanceAndIntensity ov 0 0 0 0 0 dem flat_geo nodata_val zenith_params
           main_global_params gray_image nadir_camera g_errorCount =
         (Returns (True, 1501149 / 1000000, 1 / 2), g_errorCount)"
  using assms
  by (auto simp add: sample_unfold scene_normal scene_xyz scene_reflectance
                nadir_camera_def observe_pixel_def gray_image_def)

lemma scene_sample_blind:
  assumes "1 < cols dem" and "1 < rows dem" and "nodata_val \<noteq> 0 \<or> g_errorCount \<noteq> 0"
  shows "computeReflectanceAndIntensity ov 0 0 0 0 0 dem flat_geo nodata_val zenith_params
           main_global_params gray_image blind_camera g_errorCount =
         (PointToPixelErr, g_errorCount)"
  using assms
  by (auto simp add: sample_unfold scene_normal scene_xyz scene_reflectance blind_camera_def)

lemma night_reflectance:
  "ComputeReflectance ov (0, 0, - 1) (0, 0, 0) night_params main_global_params = Returns (0, None)"
  by (simp add: ComputeReflectance_def main_global_params_def night_params_def
                computeLunarLambertianReflectanceFromNormal_def normalize_z_axis)

lemma scene_sample_night:
  assumes "1 < cols dem" and "1 < rows dem" and "nodata_val \<noteq> 0 \<or> g_errorCount \<noteq> 0"
  shows "computeReflectanceAndIntensity ov 0 0 0 0 0 dem flat_geo nodata_val night_params
           main_global_params gray_image nadir_camera g_errorCount =
         (Returns (True, 0, 1 / 2), g_errorCount)"
  using assms
  by (auto simp add: sample_unfold scene_normal scene_xyz night_reflectance
                nadir_camera_def observe_pixel_def gray_image_def)

lemma scene_sample_offside:
  assumes "1 < cols dem" and "1 < rows dem" and "nodata_val \<noteq> 0 \<or> g_errorCount \<noteq> 0"
  shows "computeReflectanceAndIntensity ov 0 0 0 0 0 dem flat_geo nodata_val zenith_params
           main_global_params gray_image offside_camera g_errorCount =
         (Returns (False, 1501149 / 1000000, 0), g_errorCount)"
  using assms
  by (auto simp add: sample_unfold scene_normal scene_xyz scene_reflectance
                offside_camera_def observe_pixel_def gray_image_def)

lemma surface_normal_unit:
  assumes "surface_normal geo col row center_h right_h top_h = Some normal"
  shows "dot_prod normal normal = 1"
proof -
  from assms obtain n where
    n: "normalize (cross_prod (vsub (xyz_at geo (col + 1) row right_h) (xyz_at geo col row center_h))
                              (vsub (xyz_at geo col (row + 1) top_h) (xyz_at geo col row center_h))) = Some n"
    and normal: "normal = vneg n"
    by (auto simp add: surface_normal_def)
  show ?thesis using normalize_unit [OF n] by (simp add: normal vneg_unit)
qed

lemma reflectance_unit_never_exits:
  assumes "dot_prod normal normal = 1"
  shows "ComputeReflectance ov normal xyz input_img_params global_params \<noteq> Exits"
  using assms lambert_never_exits [of "sunPosition input_img_params" xyz normal]
  by (auto simp add: ComputeReflectance_def lunar_exits_iff split: outcome.splits)

lemma sample_never_exits:
  "fst (computeReflectanceAndIntensity ov center_h right_h top_h col row dem geo nodata_val
          model_params global_params image' camera g_errorCount) \<noteq> Exits"
proof (cases "surface_normal geo col row center_h right_h top_h")
  case None
  then show ?thesis by (simp add: sample_unfold)
next
  case (Some normal)
  have "ComputeReflectance ov normal (xyz_at geo col row center_h) model_params global_params \<noteq> Exits"
    by (rule reflectance_unit_never_exits [OF surface_normal_unit [OF Some]])
  then show ?thesis
    by (simp add: sample_unfold Some split: outcome.splits option.splits)
qed

text \<open>
  Claim C1. A sample with a height equal to the no-data marker fails and raises the counter
  only while the counter is zero. In the scene with the marker 0 all three heights are
  no-data: the first call fails and sets the counter to 1, and the same call with the
  counter at 1 succeeds, with a reflectance computed from the no-data heights. This is so
  under either overload of \<^verbatim>\<open>abs\<close>.
\<close>

theorem nodata_after_first_report:
  "computeReflectanceAndIntensity AbsDouble 0 0 0 0 0 flat_dem flat_geo 0 zenith_params
       main_global_params gray_image nadir_camera 0 = (Returns (False, 0, 0), 1)
   \<and> computeReflectanceAndIntensity AbsDouble 0 0 0 0 0 flat_dem flat_geo 0 zenith_params
       main_global_params gray_image nadir_camera 1 =
       (Returns (True, 1501149 / 1000000, 1 / 2), 1)
   \<and> computeReflectanceAndIntensity AbsInt 0 0 0 0 0 flat_dem flat_geo 0 zenith_params
       main_global_params gray_image nadir_camera 0 = (Returns (False, 0, 0), 1)
   \<and> computeReflectanceAndIntensity AbsInt 0 0 0 0 0 flat_dem flat_geo 0 zenith_params
       main_global_params gray_image nadir_camera 1 =
       (Returns (True, 1501149 / 1000000, 1 / 2), 1)"
proof -
  have first: "computeReflectanceAndIntensity ov 0 0 0 0 0 flat_dem flat_geo 0 zenith_params
                 main_global_params gray_image nadir_camera 0 = (Returns (False, 0, 0), 1)" for ov
    by (simp add: sample_unfold flat_dem_def)
  have second: "computeReflectanceAndIntensity ov 0 0 0 0 0 flat_dem flat_geo 0 zenith_params
                  main_global_params gray_image nadir_camera 1 =
                  (Returns (True, 1501149 / 1000000, 1 / 2), 1)" for ov
    by (simp add: scene_sample flat_size)
  from first [of AbsDouble] second [of AbsDouble] first [of AbsInt] second [of AbsInt]
  show ?thesis by (intro conjI)
qed

text \<open>
  Claim C8, as amended. The observation of a projected pixel fails exactly when the pixel
  lies outside the half-open range \<open>[0, cols - 1) \<times> [0, rows - 1)\<close>; inside it the intensity
  is the interpolated image at the fractional pixel. A sample that succeeds has projected
  its base point to such a pixel and returns the image value there.
\<close>

theorem pixel_observation_range:
  "(observe_pixel image' pix = None \<longleftrightarrow>
      fst pix < 0 \<or> of_int (interp_cols image') - 1 \<le> fst pix
      \<or> snd pix < 0 \<or> of_int (interp_rows image') - 1 \<le> snd pix)
   \<and> (0 \<le> fst pix \<and> fst pix < of_int (interp_cols image') - 1
       \<and> 0 \<le> snd pix \<and> snd pix < of_int (interp_rows image') - 1 \<longrightarrow>
        observe_pixel image' pix = Some (interp_at image' (fst pix) (snd pix)))
   \<and> (computeReflectanceAndIntensity ov center_h right_h top_h col row dem geo nodata_val
          model_params global_params image' camera g_errorCount = (Returns (True, r, i), e) \<longrightarrow>
        (\<exists>pix. point_to_pixel camera (xyz_at geo col row center_h) = Some pix
           \<and> 0 \<le> fst pix \<and> fst pix < of_int (interp_cols image') - 1
           \<and> 0 \<le> snd pix \<and> snd pix < of_int (interp_rows image') - 1
           \<and> i = interp_at image' (fst pix) (snd pix)))"
  by (auto simp add: sample_unfold observe_pixel_def
           split: if_splits option.splits outcome.splits prod.splits)

theorem pixel_observation_range_witness:
  "observe_pixel gray_image (3 / 2, 1 / 2) = Some (1 / 2)
   \<and> observe_pixel gray_image (2, 0) = None
   \<and> (\<exists>pix. point_to_pixel nadir_camera (xyz_at flat_geo 0 0 0) = Some pix
         \<and> 0 \<le> fst pix \<and> fst pix < of_int (interp_cols gray_image) - 1
         \<and> 0 \<le> snd pix \<and> snd pix < of_int (interp_rows gray_image) - 1
         \<and> 1 / 2 = interp_at gray_image (fst pix) (snd pix))"
proof -
  have inside: "observe_pixel gray_image (3 / 2, 1 / 2) = Some (1 / 2)"
    using pixel_observation_range [of gray_image "(3 / 2, 1 / 2)"]
    by (simp add: gray_image_def)
  have outside: "observe_pixel gray_image (2, 0) = None"
    using pixel_observation_range [of gray_image "(2, 0)"]
    by (simp add: gray_image_def)
  have sampled: "\<exists>pix. point_to_pixel nadir_camera (xyz_at flat_geo 0 0 0) = Some pix
         \<and> 0 \<le> fst pix \<and> fst pix < of_int (interp_cols gray_image) - 1
         \<and> 0 \<le> snd pix \<and> snd pix < of_int (interp_rows gray_image) - 1
         \<and> 1 / 2 = interp_at gray_image (fst pix) (snd pix)"
    using pixel_observation_range [where center_h = 0 and right_h = 0 and top_h = 0 and col = 0
          and row = 0 and dem = flat_dem and geo = flat_geo and nodata_val = 0
          and model_params = zenith_params and global_params = main_global_params
          and image' = gray_image and camera = nadir_camera and g_errorCount = 1
          and r = "1501149 / 1000000" and i = "1 / 2" and e = 1 and ov = AbsDouble]
    by (simp add: scene_sample flat_size)
  from inside outside sampled show ?thesis by simp
qed

text \<open>
  In a 3x3 image the pixel \<open>(1.5, 0.5)\<close> lies outside \<open>[0, 1] \<times> [0, 1]\<close> and is observed
  all the same.
\<close>

theorem pixel_observation_range_counterexample:
  "\<not> inside_claimed gray_image (3 / 2, 1 / 2)
   \<and> observe_pixel gray_image (3 / 2, 1 / 2) = Some (1 / 2)"
  by (simp add: inside_claimed_def observe_pixel_def gray_image_def)

text \<open>
  What the functor makes of the flag of the sample: it neither lets the camera exception
  out nor exits; when the sample succeeds the residual is
  \<open>intensity - A0 * reflectance - A1\<close>; when the sample fails or the camera throws, the
  functor reports failure and the residual is the sentinel \<open>1e20\<close>.
\<close>

lemma intensity_residual_by_flag:
  "fst (IntensityError_call ov self A tl0 top0 tr0 left0 center0 right0 bl0 bottom0 br0 g_errorCount)
     \<noteq> PointToPixelErr
   \<and> fst (IntensityError_call ov self A tl0 top0 tr0 left0 center0 right0 bl0 bottom0 br0 g_errorCount)
     \<noteq> Exits
   \<and> (computeReflectanceAndIntensity ov center0 right0 top0 (m_col self) (m_row self) (m_dem self)
         (m_geo self) (m_nodata_val self) (m_model_params self) (m_global_params self)
         (m_image self) (m_camera self) g_errorCount = (Returns (True, reflectance, intensity), e) \<longrightarrow>
       IntensityError_call ov self A tl0 top0 tr0 left0 center0 right0 bl0 bottom0 br0 g_errorCount =
         (Returns (True, intensity - fst A * reflectance - snd A), e))
   \<and> (computeReflectanceAndIntensity ov center0 right0 top0 (m_col self) (m_row self) (m_dem self)
         (m_geo self) (m_nodata_val self) (m_model_params self) (m_global_params self)
         (m_image self) (m_camera self) g_errorCount = (Returns (False, reflectance, intensity), e) \<longrightarrow>
       IntensityError_call ov self A tl0 top0 tr0 left0 center0 right0 bl0 bottom0 br0 g_errorCount =
         (Returns (False, 10 ^ 20), e))
   \<and> (computeReflectanceAndIntensity ov center0 right0 top0 (m_col self) (m_row self) (m_dem self)
         (m_geo self) (m_nodata_val self) (m_model_params self) (m_global_params self)
         (m_image self) (m_camera self) g_errorCount = (PointToPixelErr, e) \<longrightarrow>
       IntensityError_call ov self A tl0 top0 tr0 left0 center0 right0 bl0 bottom0 br0 g_errorCount =
         (Returns (False, 10 ^ 20), e))
   \<and> (IntensityError_call ov self A tl0 top0 tr0 left0 center0 right0 bl0 bottom0 br0 g_errorCount =
         (Returns (False, residual), e) \<longrightarrow> residual = 10 ^ 20)"
  using sample_never_exits [of ov center0 right0 top0 "m_col self" "m_row self" "m_dem self"
          "m_geo self" "m_nodata_val self" "m_model_params self" "m_global_params self"
          "m_image self" "m_camera self" g_errorCount]
  by (auto simp add: IntensityError_call_def Let_def split: prod.splits outcome.splits)

lemma intensity_residual_scene:
  "IntensityError_call ov scene_residual (1, 0) 0 0 0 0 0 0 0 0 0 0 =
     (Returns (True, - (1001149 / 1000000)), 0)
   \<and> IntensityError_call ov (scene_residual\<lparr>m_camera := blind_camera\<rparr>) (1, 0) 0 0 0 0 0 0 0 0 0 0 =
     (Returns (False, 10 ^ 20), 0)"
  using intensity_residual_by_flag [of ov scene_residual "(1, 0)" 0 0 0 0 0 0 0 0 0 0
                            "1501149 / 1000000" "1 / 2" 0 "10 ^ 20"]
        intensity_residual_by_flag [of ov "scene_residual\<lparr>m_camera := blind_camera\<rparr>" "(1, 0)"
                            0 0 0 0 0 0 0 0 0 0 0 0 0 "10 ^ 20"]
  by (simp add: scene_residual_def scene_sample scene_sample_blind flat_size)

text \<open>
  Claim C5. Every evaluation with a no-data height is to report failure with the sentinel
  \<open>1e20\<close> as residual. In the scene with the marker 0 all nine heights are no-data: the
  first evaluation reports failure with the sentinel and sets the error counter to 1, and
  the same evaluation with the counter at 1 reports success with the residual
  \<open>0.5 - 1 * 1.501149 - 0\<close>. The sample no longer fails on no-data once the counter is 1,
  which is the defect of claim C1 seen through the functor; it is so under either overload
  of \<^verbatim>\<open>abs\<close>.
\<close>

theorem intensity_residual_after_first_report:
  "IntensityError_call AbsDouble (scene_residual\<lparr>m_nodata_val := 0\<rparr>) (1, 0)
       0 0 0 0 0 0 0 0 0 0 = (Returns (False, 10 ^ 20), 1)
   \<and> IntensityError_call AbsDouble (scene_residual\<lparr>m_nodata_val := 0\<rparr>) (1, 0)
       0 0 0 0 0 0 0 0 0 1 = (Returns (True, - (1001149 / 1000000)), 1)
   \<and> IntensityError_call AbsInt (scene_residual\<lparr>m_nodata_val := 0\<rparr>) (1, 0)
       0 0 0 0 0 0 0 0 0 0 = (Returns (False, 10 ^ 20), 1)
   \<and> IntensityError_call AbsInt (scene_residual\<lparr>m_nodata_val := 0\<rparr>) (1, 0)
       0 0 0 0 0 0 0 0 0 1 = (Returns (True, - (1001149 / 1000000)), 1)"
proof -
  have first: "computeReflectanceAndIntensity ov 0 0 0 0 0 flat_dem flat_geo 0 zenith_params
                 main_global_params gray_image nadir_camera 0 = (Returns (False, 0, 0), 1)" for ov
    by (simp add: sample_unfold flat_dem_def)
  have second: "computeReflectanceAndIntensity ov 0 0 0 0 0 flat_dem flat_geo 0 zenith_params
                  main_global_params gray_image nadir_camera 1 =
                  (Returns (True, 1501149 / 1000000, 1 / 2), 1)" for ov
    by (simp add: scene_sample flat_size)
  have failing: "IntensityError_call ov (scene_residual\<lparr>m_nodata_val := 0\<rparr>) (1, 0)
                   0 0 0 0 0 0 0 0 0 0 = (Returns (False, 10 ^ 20), 1)" for ov
    by (simp add: IntensityError_call_def scene_residual_def first)
  have passing: "IntensityError_call ov (scene_residual\<lparr>m_nodata_val := 0\<rparr>) (1, 0)
                   0 0 0 0 0 0 0 0 0 1 = (Returns (True, - (1001149 / 1000000)), 1)" for ov
    by (simp add: IntensityError_call_def scene_residual_def second)
  from failing [of AbsDouble] passing [of AbsDouble] failing [of AbsInt] passing [of AbsInt]
  show ?thesis by (intro conjI)
qed

subsection \<open>Boundary pinning\<close>

lemma fold_collects:
  assumes "\<And>x s. g (f x s) = g s \<union> h x"
  shows "g (fold f xs s) = g s \<union> (\<Union>x\<in>set xs. h x)"
  by (induction xs arbitrary: s) (auto simp add: assms)

lemma constant_assemble_cell:
  "constant_blocks (assemble_cell ncols nrows col row problem) =
     constant_blocks problem \<union> pinned_by ncols nrows col row"
  by (auto simp add: assemble_cell_def pinned_by_def Let_def SetParameterBlockConstant_def
                     AddResidualBlock_def)

lemma constant_main_assemble:
  "constant_blocks (main_assemble ncols nrows) =
     insert ParamA (\<Union>col\<in>{1 .. ncols - 2}. \<Union>row\<in>{1 .. nrows - 2}. pinned_by ncols nrows col row)"
proof -
  have inner: "constant_blocks (fold (\<lambda>row. assemble_cell ncols nrows col row) [1 .. nrows - 2] s) =
        constant_blocks s \<union> (\<Union>row\<in>{1 .. nrows - 2}. pinned_by ncols nrows col row)"
    for col s
    using fold_collects [of constant_blocks "\<lambda>row. assemble_cell ncols nrows col row" _ "[1 .. nrows - 2]" s,
                         OF constant_assemble_cell]
    by simp
  show ?thesis
    unfolding main_assemble_def
    using fold_collects [of constant_blocks
                            "\<lambda>col. fold (\<lambda>row. assemble_cell ncols nrows col row) [1 .. nrows - 2]"
                            _ "[1 .. ncols - 2]" empty_problem, OF inner]
    by (simp add: SetParameterBlockConstant_def empty_problem_def)
qed

lemma pinned_by_iff:
  "Cell c r \<in> pinned_by ncols nrows col row \<longleftrightarrow>
     (col = 1 \<and> c = 0 \<and> (r = row - 1 \<or> r = row \<or> r = row + 1))
     \<or> (row = 1 \<and> r = 0 \<and> (c = col - 1 \<or> c = col \<or> c = col + 1))
     \<or> (col = ncols - 2 \<and> c = ncols - 1 \<and> (r = row - 1 \<or> r = row \<or> r = row + 1))
     \<or> (row = nrows - 2 \<and> r = nrows - 1 \<and> (c = col - 1 \<or> c = col \<or> c = col + 1))"
  by (auto simp add: pinned_by_def)

lemma pinned_iff:
  assumes "3 \<le> ncols" and "3 \<le> nrows"
  shows "Cell c r \<in> constant_blocks (main_assemble ncols nrows) \<longleftrightarrow>
           0 \<le> c \<and> c \<le> ncols - 1 \<and> 0 \<le> r \<and> r \<le> nrows - 1
           \<and> (c = 0 \<or> r = 0 \<or> c = ncols - 1 \<or> r = nrows - 1)"
    (is "?L \<longleftrightarrow> ?R")
proof
  assume ?L
  then obtain col row where b: "1 \<le> col" "col \<le> ncols - 2" "1 \<le> row" "row \<le> nrows - 2"
    and m: "Cell c r \<in> pinned_by ncols nrows col row"
    by (auto simp add: constant_main_assemble)
  from m b show ?R unfolding pinned_by_iff by linarith
next
  assume R: ?R
  define row where "row = max 1 (min r (nrows - 2))"
  define col where "col = max 1 (min c (ncols - 2))"
  have b: "1 \<le> col" "col \<le> ncols - 2" "1 \<le> row" "row \<le> nrows - 2"
    using assms by (simp_all add: row_def col_def)
  have rr: "r = row - 1 \<or> r = row \<or> r = row + 1"
    using R assms by (simp add: row_def max_def min_def)
  have cc: "c = col - 1 \<or> c = col \<or> c = col + 1"
    using R assms by (simp add: col_def max_def min_def)
  have c0: "c = 0 \<Longrightarrow> col = 1" using assms by (simp add: col_def)
  have c1: "c = ncols - 1 \<Longrightarrow> col = ncols - 2" using assms by (simp add: col_def)
  have r0: "r = 0 \<Longrightarrow> row = 1" using assms by (simp add: row_def)
  have r1: "r = nrows - 1 \<Longrightarrow> row = nrows - 2" using assms by (simp add: row_def)
  from R consider (left) "c = 0" | (right) "c = ncols - 1" | (bottom) "r = 0" | (top) "r = nrows - 1"
    by blast
  then have "Cell c r \<in> pinned_by ncols nrows col row"
  proof cases
    case left
    with c0 rr show ?thesis unfolding pinned_by_iff by blast
  next
    case right
    with c1 rr show ?thesis unfolding pinned_by_iff by blast
  next
    case bottom
    with r0 cc show ?thesis unfolding pinned_by_iff by blast
  next
    case top
    with r1 cc show ?thesis unfolding pinned_by_iff by blast
  qed
  moreover have "col \<in> {1 .. ncols - 2}" and "row \<in> {1 .. nrows - 2}"
    using b by simp_all
  ultimately have "Cell c r \<in> (\<Union>col\<in>{1 .. ncols - 2}. \<Union>row\<in>{1 .. nrows - 2}.
                                  pinned_by ncols nrows col row)"
    by blast
  then show ?L by (simp only: constant_main_assemble insert_iff) simp
qed

text \<open>
  Claim C7. For a grid with at least three columns and three rows, the blocks of DEM cells
  that the assembly marks constant are exactly the cells of the outermost ring: column 0,
  row 0, the last column and the last row. A solver that keeps constant blocks fixed
  therefore leaves every height of the ring unchanged, and is free to change every
  interior cell.
\<close>

theorem boundary_pinning:
  assumes "3 \<le> ncols" and "3 \<le> nrows"
  shows "(Cell c r \<in> constant_blocks (main_assemble ncols nrows) \<longleftrightarrow>
            0 \<le> c \<and> c \<le> ncols - 1 \<and> 0 \<le> r \<and> r \<le> nrows - 1
            \<and> (c = 0 \<or> r = 0 \<or> c = ncols - 1 \<or> r = nrows - 1))
         \<and> (0 \<le> c \<and> c \<le> ncols - 1 \<and> 0 \<le> r \<and> r \<le> nrows - 1
             \<and> (c = 0 \<or> r = 0 \<or> c = ncols - 1 \<or> r = nrows - 1) \<longrightarrow>
              solver_update (main_assemble ncols nrows) dem proposed c r = dem c r)
         \<and> (1 \<le> c \<and> c \<le> ncols - 2 \<and> 1 \<le> r \<and> r \<le> nrows - 2 \<longrightarrow>
              solver_update (main_assemble ncols nrows) dem proposed c r = proposed c r)"
  using pinned_iff [OF assms, of c r] by (auto simp add: solver_update_def)

theorem boundary_pinning_witness:
  "Cell 0 1 \<in> constant_blocks (main_assemble 3 4)
   \<and> Cell 2 3 \<in> constant_blocks (main_assemble 3 4)
   \<and> Cell 1 2 \<notin> constant_blocks (main_assemble 3 4)
   \<and> solver_update (main_assemble 3 4) (\<lambda>_ _. 1000) (\<lambda>_ _. 1001) 0 1 = 1000
   \<and> solver_update (main_assemble 3 4) (\<lambda>_ _. 1000) (\<lambda>_ _. 1001) 1 2 = 1001"
  using boundary_pinning [of 3 4 0 1 "\<lambda>_ _. 1000" "\<lambda>_ _. 1001"]
        boundary_pinning [of 3 4 2 3 "\<lambda>_ _. 1000" "\<lambda>_ _. 1001"]
        boundary_pinning [of 3 4 1 2 "\<lambda>_ _. 1000" "\<lambda>_ _. 1001"]
  by simp

subsection \<open>Image statistics\<close>

lemma stats_rows:
  "fold (\<lambda>row. stats_pixel is_valid I col row) rs (s, s2, n) =
     (s + sum_list (filter is_valid (map (\<lambda>row. pixel I col row) rs)),
      s2 + sum_list (map (\<lambda>v. v * v) (filter is_valid (map (\<lambda>row. pixel I col row) rs))),
      n + real (length (filter is_valid (map (\<lambda>row. pixel I col row) rs))))"
  by (induction rs arbitrary: s s2 n) (simp_all add: stats_pixel_def Let_def)

lemma stats_cols:
  "fold (\<lambda>col. fold (\<lambda>row. stats_pixel is_valid I col row) rs) cs (s, s2, n) =
     (s + sum_list (filter is_valid (concat (map (\<lambda>col. map (\<lambda>row. pixel I col row) rs) cs))),
      s2 + sum_list (map (\<lambda>v. v * v)
                      (filter is_valid (concat (map (\<lambda>col. map (\<lambda>row. pixel I col row) rs) cs)))),
      n + real (length (filter is_valid (concat (map (\<lambda>col. map (\<lambda>row. pixel I col row) rs) cs)))))"
  by (induction cs arbitrary: s s2 n) (simp_all add: stats_rows)

lemma compute_image_stats_closed:
  "compute_image_stats is_valid I =
     (mean_of (valid_values is_valid I), stdev_of (valid_values is_valid I))"
  by (simp add: compute_image_stats_def stats_cols valid_values_def pixel_values_def
                mean_of_def stdev_of_def Let_def)

lemma all_valid: "valid_values (\<lambda>_. True) I = pixel_values I"
  by (simp add: valid_values_def)

lemma mean_single: "mean_of [x, 0, 0, 0] = x / 4"
  by (simp add: mean_of_def)

lemma stdev_single: "stdev_of [x, 0, 0, 0] = \<bar>x\<bar> * sqrt 3 / 4"
proof -
  have "x * x / 4 - x / 4 * (x / 4) = 3 * (x / 4)\<^sup>2"
    by (simp add: power2_eq_square)
  then have "stdev_of [x, 0, 0, 0] = sqrt (3 * (x / 4)\<^sup>2)"
    by (simp add: stdev_of_def mean_single)
  also have "\<dots> = sqrt 3 * \<bar>x / 4\<bar>"
    by (simp only: real_sqrt_mult real_sqrt_abs)
  finally show ?thesis by simp
qed

lemma upto_0_0: "[0 .. 0 :: int] = [0]"
  by (simp add: upto.simps)

lemma upto_0_1: "[0 .. 1 :: int] = [0, 1]"
  by (simp add: upto.simps)

lemma tiny_values: "pixel_values (set_pixel (set_size 2 2) 0 0 x) = [x, 0, 0, 0]"
  by (simp add: pixel_values_def set_pixel_def set_size_def upto_0_1)

lemma tiny_size: "cols tiny_dem = 2" "rows tiny_dem = 2"
  by (simp_all add: tiny_dem_def)

lemma step_values: "pixel_values step_image = [1, 0]"
  by (simp add: pixel_values_def step_image_def upto_0_0 upto_0_1)

lemma step_stdev: "stdev_of [1, 0] = 1 / 2"
proof -
  have "stdev_of [1, 0] = sqrt ((1 / 2)\<^sup>2)"
    by (simp add: stdev_of_def mean_of_def power2_eq_square)
  then show ?thesis by simp
qed

lemma step_mean: "mean_of [1, 0] = 1 / 2"
  by (simp add: mean_of_def)

lemma length_pixel_values: "length (pixel_values I) = nat (cols I) * nat (rows I)"
  by (simp add: pixel_values_def length_concat comp_def sum_list_triv)

subsection \<open>The pass over the grid\<close>

lemma grid_sample_aborted:
  assumes "\<forall>RI. fst st \<noteq> Returns RI"
  shows "grid_sample ov dem geo nodata_val model_params global_params image' camera col row st = st"
  using assms by (cases st; cases "fst st") (auto simp add: grid_sample_def)

lemma fold_rows_aborted:
  assumes "\<forall>RI. fst st \<noteq> Returns RI"
  shows "fold (\<lambda>row. grid_sample ov dem geo nodata_val model_params global_params image' camera col row)
              rs st = st"
  using assms by (induction rs) (simp_all add: grid_sample_aborted)

lemma fold_cols_aborted:
  assumes "\<forall>RI. fst st \<noteq> Returns RI"
  shows "fold (\<lambda>col. fold (\<lambda>row. grid_sample ov dem geo nodata_val model_params global_params image'
                                       camera col row) rs)
              cs st = st"
  using assms by (induction cs) (simp_all add: fold_rows_aborted)

lemma grid_sample_Returns:
  assumes "grid_sample ov dem geo nodata_val model_params global_params image' camera col row
             (Returns (R0, I0), e0) = (Returns (R, I), e)"
  shows "\<exists>ok r i.
           computeReflectanceAndIntensity ov
             (pixel dem col row) (pixel dem (col + 1) row) (pixel dem col (row + 1))
             col row dem geo nodata_val model_params global_params image' camera e0 =
           (Returns (ok, r, i), e)
           \<and> R = set_pixel R0 col row r \<and> I = set_pixel I0 col row i"
  using assms by (auto simp add: grid_sample_def split: prod.splits outcome.splits)

lemma rows_stored:
  assumes "fold (\<lambda>row. grid_sample ov dem geo nodata_val model_params global_params image' camera col row)
                rs (Returns (R0, I0), e0) = (Returns (R, I), e)"
    and "distinct rs"
  shows "cols R = cols R0 \<and> rows R = rows R0 \<and> cols I = cols I0 \<and> rows I = rows I0
         \<and> (\<forall>c r. c \<noteq> col \<or> r \<notin> set rs \<longrightarrow>
                pixel R c r = pixel R0 c r \<and> pixel I c r = pixel I0 c r)
         \<and> (\<forall>r\<in>set rs. stored_sample ov dem geo nodata_val model_params global_params image' camera
                            R I col r)"
  using assms
proof (induction rs arbitrary: R0 I0 e0)
  case Nil
  then show ?case by simp
next
  case (Cons x xs)
  let ?f = "\<lambda>row. grid_sample ov dem geo nodata_val model_params global_params image' camera col row"
  define s1 where "s1 = ?f x (Returns (R0, I0), e0)"
  have run: "fold ?f xs s1 = (Returns (R, I), e)"
    using Cons.prems(1) by (simp add: s1_def)
  have "\<exists>RI. fst s1 = Returns RI"
  proof (rule ccontr)
    assume "\<not> (\<exists>RI. fst s1 = Returns RI)"
    then have "fold ?f xs s1 = s1" by (intro fold_rows_aborted) simp
    with run show False using \<open>\<not> (\<exists>RI. fst s1 = Returns RI)\<close> by simp
  qed
  then obtain R1 I1 e1 where s1: "s1 = (Returns (R1, I1), e1)"
    by (cases s1) auto
  from grid_sample_Returns [of ov dem geo nodata_val model_params global_params image' camera col x
                               R0 I0 e0 R1 I1 e1]
  obtain ok r i where
    smp: "computeReflectanceAndIntensity ov
            (pixel dem col x) (pixel dem (col + 1) x) (pixel dem col (x + 1))
            col x dem geo nodata_val model_params global_params image' camera e0 =
          (Returns (ok, r, i), e1)"
    and R1: "R1 = set_pixel R0 col x r" and I1: "I1 = set_pixel I0 col x i"
    using s1 by (auto simp add: s1_def)
  have xs: "distinct xs" and x: "x \<notin> set xs" using Cons.prems(2) by simp_all
  note IH = Cons.IH [OF run [unfolded s1] xs]
  have at_x: "pixel R col x = r \<and> pixel I col x = i"
    using IH x by (simp add: R1 I1 set_pixel_def)
  have "stored_sample ov dem geo nodata_val model_params global_params image' camera R I col x"
    unfolding stored_sample_def using smp at_x by auto
  moreover have "\<forall>c r. c \<noteq> col \<or> r \<notin> set (x # xs) \<longrightarrow>
                   pixel R c r = pixel R0 c r \<and> pixel I c r = pixel I0 c r"
    using IH by (auto simp add: R1 I1 set_pixel_def)
  ultimately show ?case
    using IH by (simp add: R1 I1 set_pixel_def)
qed

lemma stored_sample_cong:
  assumes "stored_sample ov dem geo nodata_val model_params global_params image' camera R1 I1 c r"
    and "pixel R c r = pixel R1 c r" and "pixel I c r = pixel I1 c r"
  shows "stored_sample ov dem geo nodata_val model_params global_params image' camera R I c r"
  using assms by (simp add: stored_sample_def)

lemma cols_stored:
  assumes "fold (\<lambda>col. fold (\<lambda>row. grid_sample ov dem geo nodata_val model_params global_params image'
                                         camera col row) rs)
                cs (Returns (R0, I0), e0) = (Returns (R, I), e)"
    and "distinct rs" and "distinct cs"
  shows "cols R = cols R0 \<and> rows R = rows R0 \<and> cols I = cols I0 \<and> rows I = rows I0
         \<and> (\<forall>c r. c \<notin> set cs \<or> r \<notin> set rs \<longrightarrow>
                pixel R c r = pixel R0 c r \<and> pixel I c r = pixel I0 c r)
         \<and> (\<forall>c\<in>set cs. \<forall>r\<in>set rs.
                stored_sample ov dem geo nodata_val model_params global_params image' camera R I c r)"
  using assms(1,3)
proof (induction cs arbitrary: R0 I0 e0)
  case Nil
  then show ?case by simp
next
  case (Cons x xs)
  let ?g = "\<lambda>col. fold (\<lambda>row. grid_sample ov dem geo nodata_val model_params global_params image'
                                      camera col row) rs"
  define s1 where "s1 = ?g x (Returns (R0, I0), e0)"
  have run: "fold ?g xs s1 = (Returns (R, I), e)"
    using Cons.prems(1) by (simp add: s1_def)
  have "\<exists>RI. fst s1 = Returns RI"
  proof (rule ccontr)
    assume stop: "\<not> (\<exists>RI. fst s1 = Returns RI)"
    then have "fold ?g xs s1 = s1" by (intro fold_cols_aborted) simp
    with run stop show False by simp
  qed
  then obtain R1 I1 e1 where s1: "s1 = (Returns (R1, I1), e1)"
    by (cases s1) auto
  have col_x: "cols R1 = cols R0 \<and> rows R1 = rows R0 \<and> cols I1 = cols I0 \<and> rows I1 = rows I0
         \<and> (\<forall>c r. c \<noteq> x \<or> r \<notin> set rs \<longrightarrow>
                pixel R1 c r = pixel R0 c r \<and> pixel I1 c r = pixel I0 c r)
         \<and> (\<forall>r\<in>set rs. stored_sample ov dem geo nodata_val model_params global_params image' camera
                            R1 I1 x r)"
    using rows_stored [OF _ assms(2), of ov dem geo nodata_val model_params global_params image'
                          camera x R0 I0 e0 R1 I1 e1] s1
    by (simp add: s1_def)
  have xs: "distinct xs" and x: "x \<notin> set xs" using Cons.prems(2) by simp_all
  note IH = Cons.IH [OF run [unfolded s1] xs]
  have keep: "pixel R x r = pixel R1 x r \<and> pixel I x r = pixel I1 x r" for r
    using IH x by simp
  have "\<forall>r\<in>set rs. stored_sample ov dem geo nodata_val model_params global_params image' camera R I x r"
    using col_x keep by (auto intro: stored_sample_cong)
  moreover have "\<forall>c r. c \<notin> set (x # xs) \<or> r \<notin> set rs \<longrightarrow>
                   pixel R c r = pixel R0 c r \<and> pixel I c r = pixel I0 c r"
    using IH col_x by auto
  ultimately show ?case
    using IH col_x by simp
qed

lemma grid_stored:
  assumes "computeReflectanceAndIntensity_grid ov dem geo nodata_val model_params global_params
             image' camera g_errorCount = (Returns (R, I), e)"
  shows "cols R = cols dem \<and> rows R = rows dem \<and> cols I = cols dem \<and> rows I = rows dem
         \<and> (\<forall>c r. 0 \<le> c \<and> c \<le> cols dem - 2 \<and> 0 \<le> r \<and> r \<le> rows dem - 2 \<longrightarrow>
                stored_sample ov dem geo nodata_val model_params global_params image' camera R I c r)
         \<and> (\<forall>c r. \<not> (0 \<le> c \<and> c \<le> cols dem - 2 \<and> 0 \<le> r \<and> r \<le> rows dem - 2) \<longrightarrow>
                pixel R c r = 0 \<and> pixel I c r = 0)"
  using cols_stored [OF assms [unfolded computeReflectanceAndIntensity_grid_def]]
  by (auto simp add: set_size_def)

lemma tiny_grid:
  "computeReflectanceAndIntensity_grid ov tiny_dem flat_geo (- 32768) zenith_params
       main_global_params gray_image nadir_camera 0 =
     (Returns (set_pixel (set_size 2 2) 0 0 (1501149 / 1000000),
               set_pixel (set_size 2 2) 0 0 (1 / 2)), 0)"
proof -
  have smp: "computeReflectanceAndIntensity ov 0 0 0 0 0 tiny_dem flat_geo (- 32768) zenith_params
               main_global_params gray_image nadir_camera 0 =
             (Returns (True, 1501149 / 1000000, 1 / 2), 0)"
    by (rule scene_sample) (simp_all add: tiny_dem_def)
  have px: "pixel tiny_dem c r = 0" and sz: "cols tiny_dem = 2" "rows tiny_dem = 2" for c r
    by (simp_all add: tiny_dem_def)
  show ?thesis
    by (simp add: computeReflectanceAndIntensity_grid_def sz upto_0_0 grid_sample_def px smp)
qed

lemma tiny_grid_night:
  "computeReflectanceAndIntensity_grid ov tiny_dem flat_geo (- 32768) night_params
       main_global_params gray_image nadir_camera 0 =
     (Returns (set_pixel (set_size 2 2) 0 0 0, set_pixel (set_size 2 2) 0 0 (1 / 2)), 0)"
proof -
  have smp: "computeReflectanceAndIntensity ov 0 0 0 0 0 tiny_dem flat_geo (- 32768) night_params
               main_global_params gray_image nadir_camera 0 =
             (Returns (True, 0, 1 / 2), 0)"
    by (rule scene_sample_night) (simp_all add: tiny_dem_def)
  have px: "pixel tiny_dem c r = 0" and sz: "cols tiny_dem = 2" "rows tiny_dem = 2" for c r
    by (simp_all add: tiny_dem_def)
  show ?thesis
    by (simp add: computeReflectanceAndIntensity_grid_def sz upto_0_0 grid_sample_def px smp)
qed

subsection \<open>The affine parameters and the failed samples\<close>

text \<open>
  Claim C9. When the pass over the initial DEM returns the images \<open>reflectance\<close> and
  \<open>intensity\<close>, the estimate is \<open>A0 = intensityStdev / reflectanceStdev\<close> and
  \<open>A1 = intensityMean - A0 * reflectanceMean\<close>, with the mean and the standard deviation
  taken over the pixels of each image that pass the validity test. The quotient is not
  guarded: when the standard deviation of the reflectance is 0 there is no result.
\<close>

theorem affine_parameter_estimate:
  assumes "computeReflectanceAndIntensity_grid ov dem geo nodata_val model_params global_params
             image' camera g_errorCount = (Returns (reflectance, intensity), e)"
  shows "main_estimate_A ov is_valid dem geo nodata_val model_params global_params image' camera
           g_errorCount =
         (if stdev_of (valid_values is_valid reflectance) = 0 then NotFinite
          else Returns
                 (stdev_of (valid_values is_valid intensity)
                    / stdev_of (valid_values is_valid reflectance),
                  mean_of (valid_values is_valid intensity)
                    - stdev_of (valid_values is_valid intensity)
                        / stdev_of (valid_values is_valid reflectance)
                        * mean_of (valid_values is_valid reflectance)),
          e)"
  by (simp add: main_estimate_A_def assms compute_image_stats_closed fdiv_def)

theorem affine_parameter_estimate_witness:
  "main_estimate_A AbsDouble (\<lambda>_. True) tiny_dem flat_geo (- 32768) zenith_params main_global_params
       gray_image nadir_camera 0 = (Returns (500000 / 1501149, 0), 0)
   \<and> main_estimate_A AbsDouble (\<lambda>_. True) tiny_dem flat_geo (- 32768) night_params main_global_params
       gray_image nadir_camera 0 = (NotFinite, 0)"
proof -
  have day: "main_estimate_A AbsDouble (\<lambda>_. True) tiny_dem flat_geo (- 32768) zenith_params
               main_global_params gray_image nadir_camera 0 = (Returns (500000 / 1501149, 0), 0)"
    using affine_parameter_estimate [OF tiny_grid [of AbsDouble], of "\<lambda>_. True"]
    by (simp add: all_valid tiny_values stdev_single mean_single)
  have night: "main_estimate_A AbsDouble (\<lambda>_. True) tiny_dem flat_geo (- 32768) night_params
                 main_global_params gray_image nadir_camera 0 = (NotFinite, 0)"
    using affine_parameter_estimate [OF tiny_grid_night [of AbsDouble], of "\<lambda>_. True"]
    by (simp add: all_valid tiny_values stdev_single mean_single)
  from day night show ?thesis by (rule conjI)
qed

text \<open>
  Claim C10, as amended. A sample outside the grid, and a sample with a no-data height
  while the error counter is 0, return failure with both outputs 0. A sample whose
  projected pixel is out of range returns failure with intensity 0 and with the reflectance
  output holding the reflectance already computed. On every failing return the intensity
  is 0. The pass over the grid stores the outputs of every sample it takes, whatever the
  flag, and when the validity test accepts every value the statistics range over all
  \<open>cols * rows\<close> pixels of an image: a failed cell is counted, not excluded.
\<close>

theorem failed_sample_outputs:
  "(cols dem - 1 \<le> col \<or> rows dem - 1 \<le> row \<longrightarrow>
      computeReflectanceAndIntensity ov center_h right_h top_h col row dem geo nodata_val
        model_params global_params image' camera g_errorCount =
      (Returns (False, 0, 0), g_errorCount))
   \<and> (col < cols dem - 1 \<and> row < rows dem - 1 \<and> g_errorCount = 0
       \<and> (center_h = nodata_val \<or> right_h = nodata_val \<or> top_h = nodata_val) \<longrightarrow>
      computeReflectanceAndIntensity ov center_h right_h top_h col row dem geo nodata_val
        model_params global_params image' camera g_errorCount =
      (Returns (False, 0, 0), 1))
   \<and> (col < cols dem - 1 \<and> row < rows dem - 1
       \<and> \<not> (g_errorCount = 0
            \<and> (center_h = nodata_val \<or> right_h = nodata_val \<or> top_h = nodata_val))
       \<and> surface_normal geo col row center_h right_h top_h = Some normal
       \<and> ComputeReflectance ov normal (xyz_at geo col row center_h) model_params global_params =
           Returns (reflectance, phase_angle)
       \<and> point_to_pixel camera (xyz_at geo col row center_h) = Some pix
       \<and> observe_pixel image' pix = None \<longrightarrow>
      computeReflectanceAndIntensity ov center_h right_h top_h col row dem geo nodata_val
        model_params global_params image' camera g_errorCount =
      (Returns (False, reflectance, 0), g_errorCount))
   \<and> (computeReflectanceAndIntensity ov center_h right_h top_h col row dem geo nodata_val
        model_params global_params image' camera g_errorCount =
      (Returns (False, r, i), e) \<longrightarrow> i = 0)
   \<and> (computeReflectanceAndIntensity_grid ov dem geo nodata_val model_params global_params
         image' camera g_errorCount = (Returns (R, I), e')
       \<and> 0 \<le> c \<and> c \<le> cols dem - 2 \<and> 0 \<le> r' \<and> r' \<le> rows dem - 2 \<longrightarrow>
      stored_sample ov dem geo nodata_val model_params global_params image' camera R I c r')
   \<and> ((\<forall>v. is_valid v) \<longrightarrow>
      compute_image_stats is_valid J = (mean_of (pixel_values J), stdev_of (pixel_values J)))
   \<and> length (pixel_values J) = nat (cols J) * nat (rows J)"
proof -
  let ?sample = "computeReflectanceAndIntensity ov center_h right_h top_h col row dem geo nodata_val
                   model_params global_params image' camera g_errorCount"
  have off_grid: "cols dem - 1 \<le> col \<or> rows dem - 1 \<le> row \<longrightarrow>
                  ?sample = (Returns (False, 0, 0), g_errorCount)"
    by (simp add: sample_unfold)
  have first_nodata: "col < cols dem - 1 \<and> row < rows dem - 1 \<and> g_errorCount = 0
       \<and> (center_h = nodata_val \<or> right_h = nodata_val \<or> top_h = nodata_val) \<longrightarrow>
       ?sample = (Returns (False, 0, 0), 1)"
    by (simp add: sample_unfold)
  have off_image: "col < cols dem - 1 \<and> row < rows dem - 1
       \<and> \<not> (g_errorCount = 0
            \<and> (center_h = nodata_val \<or> right_h = nodata_val \<or> top_h = nodata_val))
       \<and> surface_normal geo col row center_h right_h top_h = Some normal
       \<and> ComputeReflectance ov normal (xyz_at geo col row center_h) model_params global_params =
           Returns (reflectance, phase_angle)
       \<and> point_to_pixel camera (xyz_at geo col row center_h) = Some pix
       \<and> observe_pixel image' pix = None \<longrightarrow>
       ?sample = (Returns (False, reflectance, 0), g_errorCount)"
    by (auto simp add: sample_unfold)
  have zero: "?sample = (Returns (False, r, i), e) \<longrightarrow> i = 0"
    by (auto simp add: sample_unfold split: if_splits option.splits outcome.splits prod.splits)
  have stored: "computeReflectanceAndIntensity_grid ov dem geo nodata_val model_params global_params
         image' camera g_errorCount = (Returns (R, I), e')
       \<and> 0 \<le> c \<and> c \<le> cols dem - 2 \<and> 0 \<le> r' \<and> r' \<le> rows dem - 2 \<longrightarrow>
      stored_sample ov dem geo nodata_val model_params global_params image' camera R I c r'"
    using grid_stored [of ov dem geo nodata_val model_params global_params image' camera
                          g_errorCount R I e']
    by blast
  have stats: "(\<forall>v. is_valid v) \<longrightarrow>
      compute_image_stats is_valid J = (mean_of (pixel_values J), stdev_of (pixel_values J))"
    by (simp add: compute_image_stats_closed valid_values_def)
  show ?thesis
    by (intro conjI) (fact off_grid first_nodata off_image zero stored stats length_pixel_values)+
qed

theorem failed_sample_outputs_witness:
  "computeReflectanceAndIntensity AbsDouble 0 0 0 2 0 flat_dem flat_geo (- 32768) zenith_params
       main_global_params gray_image nadir_camera 0 = (Returns (False, 0, 0), 0)
   \<and> computeReflectanceAndIntensity AbsDouble 0 0 0 0 0 flat_dem flat_geo 0 zenith_params
       main_global_params gray_image nadir_camera 0 = (Returns (False, 0, 0), 1)
   \<and> computeReflectanceAndIntensity AbsDouble 0 0 0 0 0 flat_dem flat_geo (- 32768) zenith_params
       main_global_params gray_image offside_camera 0 =
       (Returns (False, 1501149 / 1000000, 0), 0)
   \<and> stored_sample AbsDouble tiny_dem flat_geo (- 32768) zenith_params main_global_params gray_image
       nadir_camera (set_pixel (set_size 2 2) 0 0 (1501149 / 1000000))
       (set_pixel (set_size 2 2) 0 0 (1 / 2)) 0 0
   \<and> compute_image_stats (\<lambda>_. True) step_image = (1 / 2, 1 / 2)
   \<and> length (pixel_values step_image) = 2"
proof -
  have off_grid: "computeReflectanceAndIntensity AbsDouble 0 0 0 2 0 flat_dem flat_geo (- 32768)
       zenith_params main_global_params gray_image nadir_camera 0 = (Returns (False, 0, 0), 0)"
    using failed_sample_outputs [where dem = flat_dem and col = 2 and row = 0
            and center_h = 0 and right_h = 0 and top_h = 0 and geo = flat_geo
            and nodata_val = "- 32768" and model_params = zenith_params
            and global_params = main_global_params and image' = gray_image
            and camera = nadir_camera and g_errorCount = 0 and ov = AbsDouble]
    by (simp add: flat_dem_def)
  have first_nodata: "computeReflectanceAndIntensity AbsDouble 0 0 0 0 0 flat_dem flat_geo 0 zenith_params
       main_global_params gray_image nadir_camera 0 = (Returns (False, 0, 0), 1)"
    using failed_sample_outputs [where dem = flat_dem and col = 0 and row = 0
            and center_h = 0 and right_h = 0 and top_h = 0 and geo = flat_geo
            and nodata_val = 0 and model_params = zenith_params
            and global_params = main_global_params and image' = gray_image
            and camera = nadir_camera and g_errorCount = 0 and ov = AbsDouble]
    by (simp add: flat_dem_def)
  have off_image: "computeReflectanceAndIntensity AbsDouble 0 0 0 0 0 flat_dem flat_geo (- 32768)
       zenith_params main_global_params gray_image offside_camera 0 =
       (Returns (False, 1501149 / 1000000, 0), 0)"
    using failed_sample_outputs [where dem = flat_dem and col = 0 and row = 0
            and center_h = 0 and right_h = 0 and top_h = 0 and geo = flat_geo
            and nodata_val = "- 32768" and model_params = zenith_params
            and global_params = main_global_params and image' = gray_image
            and camera = offside_camera and g_errorCount = 0
            and normal = "(0, 0, - 1)" and reflectance = "1501149 / 1000000"
            and phase_angle = "Some 0" and pix = "(- 1, 0)" and ov = AbsDouble]
    by (simp add: flat_dem_def scene_normal scene_xyz scene_reflectance offside_camera_def
                  observe_pixel_def)
  have stored: "stored_sample AbsDouble tiny_dem flat_geo (- 32768) zenith_params main_global_params
       gray_image nadir_camera (set_pixel (set_size 2 2) 0 0 (1501149 / 1000000))
       (set_pixel (set_size 2 2) 0 0 (1 / 2)) 0 0"
    using failed_sample_outputs [where dem = tiny_dem and geo = flat_geo
            and nodata_val = "- 32768" and model_params = zenith_params
            and global_params = main_global_params and image' = gray_image
            and camera = nadir_camera and g_errorCount = 0
            and R = "set_pixel (set_size 2 2) 0 0 (1501149 / 1000000)"
            and I = "set_pixel (set_size 2 2) 0 0 (1 / 2)" and e' = 0 and c = 0 and r' = 0 and ov = AbsDouble]
    by (simp add: tiny_grid tiny_size)
  have stats: "compute_image_stats (\<lambda>_. True) step_image = (1 / 2, 1 / 2)"
    using failed_sample_outputs [where is_valid = "\<lambda>_. True" and J = step_image]
    by (simp add: step_values step_stdev step_mean)
  have count: "length (pixel_values step_image) = 2"
    using failed_sample_outputs [where J = step_image]
    by (simp add: step_image_def)
  from off_grid first_nodata off_image stored stats count show ?thesis by blast
qed

text \<open>
  With a camera that projects to the pixel \<open>(- 1, 0)\<close> the sample fails and its reflectance
  output is \<open>1.501149\<close>, not 0, under either overload of \<^verbatim>\<open>abs\<close>.
\<close>

theorem failed_sample_outputs_counterexample:
  "computeReflectanceAndIntensity AbsDouble 0 0 0 0 0 flat_dem flat_geo (- 32768) zenith_params
       main_global_params gray_image offside_camera 0 =
     (Returns (False, 1501149 / 1000000, 0), 0)
   \<and> computeReflectanceAndIntensity AbsInt 0 0 0 0 0 flat_dem flat_geo (- 32768) zenith_params
       main_global_params gray_image offside_camera 0 =
     (Returns (False, 1501149 / 1000000, 0), 0)"
proof -
  have "computeReflectanceAndIntensity ov 0 0 0 0 0 flat_dem flat_geo (- 32768) zenith_params
          main_global_params gray_image offside_camera 0 =
        (Returns (False, 1501149 / 1000000, 0), 0)" for ov
    by (rule scene_sample_offside) (simp_all add: flat_dem_def)
  from this [of AbsDouble] this [of AbsInt] show ?thesis by (rule conjI)
qed

end
